theory Spec2Isabelle
  imports Main "HOL-Library.AList"
begin

section \<open>Package tags: the tag map\<close>

text \<open>
  Go's \<^verbatim>\<open>type Map map[string]string\<close>. A Go map value is either nil or a reference to a
  table of entries with pairwise distinct keys; \<^verbatim>\<open>range\<close> visits the entries in an order
  the language leaves open. The model keeps the nil value apart from the empty table and
  lists the entries of a table in the order in which this run visits them. Distinctness
  of the keys is the predicate \<open>wf_Map\<close>.
\<close>

datatype tags_Map = NilMap | MakeMap "(string \<times> string) list"

fun entries :: "tags_Map \<Rightarrow> (string \<times> string) list" where
  "entries NilMap = []"
| "entries (MakeMap xs) = xs"

definition wf_Map :: "tags_Map \<Rightarrow> bool" where
  "wf_Map m = distinct (map fst (entries m))"

text \<open>\<^verbatim>\<open>v, ok := m[key]\<close>: reading a nil map finds nothing.\<close>

definition lookup :: "tags_Map \<Rightarrow> string \<Rightarrow> string option" where
  "lookup m key = map_of (entries m) key"

text \<open>\<^verbatim>\<open>len(m)\<close>: zero for a nil map.\<close>

definition len :: "tags_Map \<Rightarrow> nat" where
  "len m = length (entries m)"

text \<open>
  \<^verbatim>\<open>reflect.DeepEqual\<close> on two maps, as the Go library documents it: both nil or both
  non-nil, the same length, and every key of the first is mapped by the second to an
  equal value.
\<close>

definition DeepEqual :: "tags_Map \<Rightarrow> tags_Map \<Rightarrow> bool" where
  "DeepEqual a b =
     (((a = NilMap) = (b = NilMap)) \<and> len a = len b \<and>
      list_all (\<lambda>(k, v). lookup b k = Some v) (entries a))"

text \<open>\<^verbatim>\<open>func (m Map) Equals(other Map) bool\<close>\<close>

definition Equals :: "tags_Map \<Rightarrow> tags_Map \<Rightarrow> bool" where
  "Equals m other = DeepEqual m other"

text \<open>
  \<^verbatim>\<open>func (m Map) Difference(other Map) Map\<close>. The loop over \<^verbatim>\<open>range m\<close> carries the result
  table \<open>res\<close>; \<^verbatim>\<open>res[key] = value\<close> is \<open>AList.update\<close>. The result is made by \<^verbatim>\<open>make\<close>, so it
  is never nil.
\<close>

fun Difference_loop ::
  "(string \<times> string) list \<Rightarrow> tags_Map \<Rightarrow> (string \<times> string) list \<Rightarrow> (string \<times> string) list"
where
  "Difference_loop [] other res = res"
| "Difference_loop ((key, value) # rest) other res =
     (if (case lookup other key of Some otherValue \<Rightarrow> value = otherValue | None \<Rightarrow> False)
      then Difference_loop rest other res
      else Difference_loop rest other (AList.update key value res))"

definition Difference :: "tags_Map \<Rightarrow> tags_Map \<Rightarrow> tags_Map" where
  "Difference m other = MakeMap (Difference_loop (entries m) other [])"

section \<open>Package ec2: data\<close>

text \<open>
  The structs the instance service reads and writes. A Go pointer field is an \<open>option\<close>
  (\<open>None\<close> is nil), a slice is a list (nil and empty are both \<open>[]\<close>), a field name
  carries a prefix for its struct. \<^verbatim>\<open>v1alpha1.NetworkInterface\<close> and the SDK's
  \<^verbatim>\<open>ec2.InstanceNetworkInterfaceSpecification\<close> have the same four fields.
\<close>

record NetworkInterface =
  ni_Groups :: "string list"
  ni_DeviceIndex :: "int option"
  ni_AssociatePublicIpAddress :: "bool option"
  ni_SubnetId :: "string option"

text \<open>\<^verbatim>\<open>v1alpha1.Instance\<close>, the instance descriptor.\<close>

record Instance =
  inst_ID :: string
  inst_Type :: string
  inst_ImageID :: string
  inst_IAMProfile :: string
  inst_SubnetID :: string
  inst_KeyName :: "string option"
  inst_EBSOptimized :: "bool option"
  inst_UserData :: "string option"
  inst_SecurityGroupIDs :: "string list"
  inst_NetworkInterfaces :: "NetworkInterface list"
  inst_Tags :: tags_Map

text \<open>
  \<^verbatim>\<open>ec2.Filter\<close>. The builders of package \<^verbatim>\<open>filter\<close> (\<^verbatim>\<open>ClusterOwned\<close>, \<^verbatim>\<open>Name\<close>,
  \<^verbatim>\<open>InstanceStates\<close>) are not among the sources; their results are kept symbolic.
\<close>

datatype EC2Filter =
    Filter "string option" "string option list"
  | ClusterOwned string
  | NameFilter string
  | InstanceStates "string list"

text \<open>\<^verbatim>\<open>v1alpha1.Filter\<close>\<close>

record Filter_v1 =
  f_Name :: string
  f_Values :: "string list"

record DescribeInstancesInput =
  dii_InstanceIds :: "string option list"
  dii_Filters :: "EC2Filter list"

text \<open>\<^verbatim>\<open>ec2.Instance\<close>, \<^verbatim>\<open>ec2.Reservation\<close>, \<^verbatim>\<open>ec2.DescribeInstancesOutput\<close>, \<^verbatim>\<open>ec2.Subnet\<close>\<close>

record SDKInstance =
  sdk_InstanceId :: "string option"
  sdk_State :: string

record Reservation =
  res_Instances :: "SDKInstance list"

record DescribeInstancesOutput =
  dio_Reservations :: "Reservation list"

record SDKSubnet =
  sub_SubnetId :: "string option"

record ec2_Tag =
  tag_Key :: "string option"
  tag_Value :: "string option"

record TagSpecification =
  ts_ResourceType :: "string option"
  ts_Tags :: "ec2_Tag list"

text \<open>\<^verbatim>\<open>ec2.RunInstancesInput\<close>; \<open>rii_IamInstanceProfile\<close> is the profile specification's name.\<close>

record RunInstancesInput =
  rii_InstanceType :: "string option"
  rii_ImageId :: "string option"
  rii_KeyName :: "string option"
  rii_EbsOptimized :: "bool option"
  rii_MaxCount :: "int option"
  rii_MinCount :: "int option"
  rii_UserData :: "string option"
  rii_SubnetId :: "string option"
  rii_SecurityGroupIds :: "string option list"
  rii_NetworkInterfaces :: "NetworkInterface list"
  rii_IamInstanceProfile :: "string option"
  rii_TagSpecifications :: "TagSpecification list"

text \<open>\<^verbatim>\<open>ec2.CreateTagsInput\<close> and \<^verbatim>\<open>ec2.DeleteTagsInput\<close> have the same two fields.\<close>

record TagsInput =
  ti_Resources :: "string option list"
  ti_Tags :: "ec2_Tag list"

text \<open>A \<^verbatim>\<open>corev1.Secret\<close>, as far as it is read.\<close>

record Secret =
  sec_Data :: "string \<Rightarrow> string option"

section \<open>Errors\<close>

text \<open>
  Go's \<^verbatim>\<open>error\<close> values. \<open>AWSError\<close> is an error a client returns; \<open>New\<close>, \<open>Errorf\<close>,
  \<open>Wrapf\<close> are the constructors of \<^verbatim>\<open>github.com/pkg/errors\<close>, kept with their format
  string and arguments (\<^verbatim>\<open>errors.Wrap\<close> is \<open>Wrapf\<close> without arguments);
  \<open>FailedDependency\<close> is \<^verbatim>\<open>awserrors.NewFailedDependency\<close>.
  A nil error is \<open>None\<close> of \<open>error option\<close>.
\<close>

datatype error =
    AWSError string
  | New string
  | Errorf string "arg list"
  | Wrapf error string "arg list"
  | FailedDependency error
and arg =
    ArgString string
  | ArgError error
  | ArgInstance Instance
  | ArgMap tags_Map
  | ArgReservation Reservation


text \<open>A Go function either returns or panics (a nil dereference, an index out of range).\<close>

datatype 'a outcome = Returns 'a | Panics

section \<open>The backend and the collaborators\<close>

text \<open>
  The clients the service calls, over a backend state \<open>'b\<close> that the model does not
  look into. Describe calls and lookups read the backend; run, terminate, tag and wait
  calls return the backend they leave behind. \<^verbatim>\<open>defaultAMILookup\<close> is a method of the
  service that is not among the sources: it is a lookup of the backend here.
  \<^verbatim>\<open>SecretsGet\<close> is \<^verbatim>\<open>kubeClient.CoreV1().Secrets(namespace).Get(name, ...)\<close>.
  The clients of the service scope (\<^verbatim>\<open>s.scope.EC2\<close>) and of the machine scope
  (\<^verbatim>\<open>machine.EC2\<close>, \<^verbatim>\<open>machine.AWSClients.EC2\<close>) talk to the one backend.
\<close>

record 'b EC2API =
  DescribeInstances :: "DescribeInstancesInput \<Rightarrow> 'b \<Rightarrow> error + DescribeInstancesOutput"
  DescribeAvailabilityZones :: "string option list \<Rightarrow> 'b \<Rightarrow> error option"
  DescribeSubnets :: "EC2Filter list \<Rightarrow> 'b \<Rightarrow> error + SDKSubnet list"
  defaultAMILookup :: "string \<Rightarrow> string \<Rightarrow> string \<Rightarrow> 'b \<Rightarrow> error + string"
  SecretsGet :: "string \<Rightarrow> string \<Rightarrow> 'b \<Rightarrow> error + Secret"
  RunInstances :: "RunInstancesInput \<Rightarrow> 'b \<Rightarrow> (error + Reservation) \<times> 'b"
  WaitUntilInstanceRunning :: "DescribeInstancesInput \<Rightarrow> 'b \<Rightarrow> error option \<times> 'b"
  TerminateInstances :: "string option list \<Rightarrow> 'b \<Rightarrow> error option \<times> 'b"
  WaitUntilInstanceTerminated :: "DescribeInstancesInput \<Rightarrow> 'b \<Rightarrow> error option \<times> 'b"
  CreateTags :: "TagsInput \<Rightarrow> 'b \<Rightarrow> error option \<times> 'b"
  DeleteTags :: "TagsInput \<Rightarrow> 'b \<Rightarrow> error option \<times> 'b"

text \<open>\<^verbatim>\<open>tags.BuildParams\<close>, with the fields \<^verbatim>\<open>createInstance\<close> sets.\<close>

datatype ResourceLifecycle = ResourceLifecycleOwned | ResourceLifecycleShared

record BuildParams =
  bp_ClusterName :: string
  bp_Lifecycle :: ResourceLifecycle
  bp_Name :: "string option"
  bp_Role :: "string option"

record ControlPlaneInput =
  cpi_CACert :: string
  cpi_CAKey :: string
  cpi_ELBAddress :: string
  cpi_ClusterName :: string
  cpi_PodSubnet :: string
  cpi_ServiceSubnet :: string
  cpi_ServiceDomain :: string
  cpi_KubernetesVersion :: string

record NodeInput =
  ndi_CACertHash :: string
  ndi_BootstrapToken :: string
  ndi_ELBAddress :: string

text \<open>
  The pure functions of other packages, none of them among the sources, taken as
  parameters: \<^verbatim>\<open>awserrors.IsNotFound\<close> (on a possibly nil error),
  \<^verbatim>\<open>converters.SDKToInstance\<close>, \<^verbatim>\<open>converters.MapToTags\<close>, \<^verbatim>\<open>tags.Build\<close>,
  \<^verbatim>\<open>userdata.NewControlPlane\<close>, \<^verbatim>\<open>userdata.NewNode\<close>,
  \<^verbatim>\<open>certificates.GenerateCertificateHash\<close> and \<^verbatim>\<open>base64.StdEncoding.EncodeToString\<close>.
\<close>

record env =
  IsNotFound :: "error option \<Rightarrow> bool"
  SDKToInstance :: "SDKInstance \<Rightarrow> Instance"
  MapToTags :: "tags_Map \<Rightarrow> ec2_Tag list"
  Build :: "BuildParams \<Rightarrow> tags_Map"
  NewControlPlane :: "ControlPlaneInput \<Rightarrow> error + string"
  NewNode :: "NodeInput \<Rightarrow> error + string"
  GenerateCertificateHash :: "string \<Rightarrow> error + string"
  EncodeToString :: "string \<Rightarrow> string"

section \<open>Scopes\<close>

record ClusterConfig =
  cc_CACertificate :: string
  cc_CAPrivateKey :: string

record Network =
  net_APIServerELB_DNSName :: string

record SecurityGroup =
  sg_ID :: string

datatype SecurityGroupRole = SecurityGroupControlPlane | SecurityGroupNode | SecurityGroupBastion

record Subnet =
  sn_ID :: string

record Cluster =
  cl_Pods_CIDRBlocks :: "string list"
  cl_Services_CIDRBlocks :: "string list"
  cl_ServiceDomain :: string

text \<open>
  What the service reads of its own scope \<open>s.scope\<close>; a field is named after the Go
  expression it stands for (\<open>scope_Scope_Name\<close> is \<^verbatim>\<open>s.scope.Scope.Name()\<close>,
  \<open>scope_Subnets_FilterPrivate\<close> is \<^verbatim>\<open>s.scope.Subnets().FilterPrivate()\<close>). The map
  \<^verbatim>\<open>s.scope.Scope.SecurityGroups()\<close> holds pointers: a missing key and a nil entry
  both read as nil.
\<close>

record ServiceScope =
  scope_Name :: string
  scope_Scope_Name :: string
  scope_ClusterID :: string
  scope_Subnets_FilterPrivate :: "Subnet list"
  scope_ClusterConfig :: "ClusterConfig option"
  scope_Network :: "Network option"
  scope_Scope_SecurityGroups :: "SecurityGroupRole \<Rightarrow> SecurityGroup option"
  scope_SecurityGroups :: "string list"
  scope_Cluster :: "Cluster option"
  scope_Scope_Cluster :: "Cluster option"

text \<open>\<^verbatim>\<open>v1alpha1.AWSResourceReference\<close>, as \<^verbatim>\<open>MachineConfig.Subnet\<close> points to it.\<close>

record AWSResourceReference =
  ref_ID :: "string option"
  ref_Filters :: "Filter_v1 list"

datatype KubeClient = KubeClient

text \<open>What the service reads of the machine scope \<^verbatim>\<open>*actuators.MachineScope\<close>.\<close>

record MachineScope =
  ms_Name :: string
  ms_Role :: string
  ms_ClusterID :: string
  ms_Namespace :: string
  ms_MachineStatus_InstanceID :: "string option"
  ms_Versions_Kubelet :: string
  ms_Versions_ControlPlane :: string
  ms_Scope_KubeClient :: "KubeClient option"
  mc_IAMInstanceProfile_ID :: "string option"
  mc_IAMInstanceProfile_ARN :: "string option"
  mc_InstanceType :: string
  mc_AMI_ID :: "string option"
  mc_Subnet :: "AWSResourceReference option"
  mc_Placement_AvailabilityZone :: string
  mc_DeviceIndex :: int
  mc_PublicIP :: "bool option"
  mc_KeyName :: string
  mc_UserDataSecret_Name :: "string option"

section \<open>The world: backend, calls issued, events recorded\<close>

datatype call =
    CallDescribeInstances DescribeInstancesInput
  | CallDescribeAvailabilityZones "string option list"
  | CallDescribeSubnets "EC2Filter list"
  | CallDefaultAMILookup string string string
  | CallSecretsGet string string
  | CallRunInstances RunInstancesInput
  | CallWaitUntilInstanceRunning DescribeInstancesInput
  | CallTerminateInstances "string option list"
  | CallWaitUntilInstanceTerminated DescribeInstancesInput
  | CallCreateTags TagsInput
  | CallDeleteTags TagsInput

fun isRunInstances :: "call \<Rightarrow> bool" where
  "isRunInstances (CallRunInstances i) = True"
| "isRunInstances c = False"

text \<open>The calls that may change the backend: all but the describe calls and lookups.\<close>

fun isChanging :: "call \<Rightarrow> bool" where
  "isChanging (CallDescribeInstances i) = False"
| "isChanging (CallDescribeAvailabilityZones z) = False"
| "isChanging (CallDescribeSubnets f) = False"
| "isChanging (CallDefaultAMILookup d v k) = False"
| "isChanging (CallSecretsGet n m) = False"
| "isChanging (CallRunInstances i) = True"
| "isChanging (CallWaitUntilInstanceRunning i) = True"
| "isChanging (CallTerminateInstances i) = True"
| "isChanging (CallWaitUntilInstanceTerminated i) = True"
| "isChanging (CallCreateTags i) = True"
| "isChanging (CallDeleteTags i) = True"

fun isCreateTags :: "call \<Rightarrow> bool" where
  "isCreateTags (CallCreateTags i) = True"
| "isCreateTags c = False"

fun isDeleteTags :: "call \<Rightarrow> bool" where
  "isDeleteTags (CallDeleteTags i) = True"
| "isDeleteTags c = False"

text \<open>The object an event is recorded on: \<^verbatim>\<open>s.scope.Cluster\<close>, \<^verbatim>\<open>s.scope.Machine\<close> or \<^verbatim>\<open>machine.Machine\<close>.\<close>

datatype subject = Subject_scope_Cluster | Subject_scope_Machine | Subject_machine_Machine

datatype event = Event subject string string "arg list"

record 'b world =
  backend :: 'b
  calls :: "call list"
  events :: "event list"

definition log :: "call \<Rightarrow> 'b world \<Rightarrow> 'b world" where
  "log c w = w\<lparr>calls := calls w @ [c]\<rparr>"

text \<open>\<^verbatim>\<open>record.Eventf(object, reason, format, args...)\<close>\<close>

definition Eventf :: "subject \<Rightarrow> string \<Rightarrow> string \<Rightarrow> arg list \<Rightarrow> 'b world \<Rightarrow> 'b world" where
  "Eventf obj reason fmt as w = w\<lparr>events := events w @ [Event obj reason fmt as]\<rparr>"

text \<open>A call that reads the backend, and a call that may change it; both are logged.\<close>

definition reading :: "call \<Rightarrow> ('b \<Rightarrow> 'r) \<Rightarrow> 'b world \<Rightarrow> 'r \<times> 'b world" where
  "reading c f w = (f (backend w), log c w)"

definition changing :: "call \<Rightarrow> ('b \<Rightarrow> 'r \<times> 'b) \<Rightarrow> 'b world \<Rightarrow> 'r \<times> 'b world" where
  "changing c f w = (case f (backend w) of (r, b) \<Rightarrow> (r, (log c w)\<lparr>backend := b\<rparr>))"

text \<open>The calls a run from world \<open>w\<close> to world \<open>w'\<close> has issued, and the events it has recorded.\<close>

definition issued :: "'b world \<Rightarrow> 'b world \<Rightarrow> call list" where
  "issued w w' = drop (length (calls w)) (calls w')"

definition recorded :: "'b world \<Rightarrow> 'b world \<Rightarrow> event list" where
  "recorded w w' = drop (length (events w)) (events w')"

section \<open>Finding an instance\<close>

text \<open>The error of a \<^verbatim>\<open>out, err := ...\<close> pair.\<close>

fun errOf :: "error + 'a \<Rightarrow> error option" where
  "errOf (Inl e) = Some e"
| "errOf (Inr x) = None"

text \<open>
  The two nested loops of \<^verbatim>\<open>InstanceByTags\<close>, which return at the first instance of the
  first reservation that has one.
\<close>

fun firstInstance :: "Reservation list \<Rightarrow> SDKInstance option" where
  "firstInstance [] = None"
| "firstInstance (res # rest) =
     (case res_Instances res of inst # others \<Rightarrow> Some inst | [] \<Rightarrow> firstInstance rest)"

text \<open>
  \<^verbatim>\<open>func (s *Service) InstanceByTags(machine) (*v1alpha1.Instance, error)\<close>. The result is
  the pair the Go function returns.
\<close>

definition InstanceByTags ::
  "env \<Rightarrow> 'b EC2API \<Rightarrow> ServiceScope \<Rightarrow> MachineScope \<Rightarrow> 'b world \<Rightarrow>
   (Instance option \<times> error option) \<times> 'b world"
where
  "InstanceByTags env api s machine w =
     (let input = \<lparr>dii_InstanceIds = [],
                   dii_Filters = [ClusterOwned (scope_Name s), NameFilter (ms_Name machine),
                                  InstanceStates [''pending'', ''running'']]\<rparr>
      in case reading (CallDescribeInstances input) (DescribeInstances api input) w of
        (r, w1) \<Rightarrow>
          if IsNotFound env (errOf r) then ((None, None), w1)
          else (case r of
                  Inl err \<Rightarrow> ((None, Some (Wrapf err ''failed to describe instances by tags'' [])), w1)
                | Inr out \<Rightarrow>
                    (case firstInstance (dio_Reservations out) of
                       Some inst \<Rightarrow> ((Some (SDKToInstance env inst), None), w1)
                     | None \<Rightarrow> ((None, None), w1))))"

text \<open>\<^verbatim>\<open>func (s *Service) InstanceIfExists(id string) (*v1alpha1.Instance, error)\<close>\<close>

definition InstanceIfExists ::
  "env \<Rightarrow> 'b EC2API \<Rightarrow> ServiceScope \<Rightarrow> string \<Rightarrow> 'b world \<Rightarrow>
   (Instance option \<times> error option) \<times> 'b world"
where
  "InstanceIfExists env api s iid w =
     (let input = \<lparr>dii_InstanceIds = [Some iid],
                   dii_Filters = [InstanceStates [''pending'', ''running'']]\<rparr>
      in case reading (CallDescribeInstances input) (DescribeInstances api input) w of
        (r, w1) \<Rightarrow>
          if IsNotFound env (errOf r) then ((None, None), w1)
          else (case r of
                  Inl err \<Rightarrow>
                    ((None, Some (Wrapf err ''failed to describe instance: %q'' [ArgString iid])), w1)
                | Inr out \<Rightarrow>
                    (case dio_Reservations out of
                       res # rest \<Rightarrow>
                         (case res_Instances res of
                            inst # others \<Rightarrow> ((Some (SDKToInstance env inst), None), w1)
                          | [] \<Rightarrow> ((None, None), w1))
                     | [] \<Rightarrow> ((None, None), w1))))"

section \<open>Terminating an instance\<close>

text \<open>\<^verbatim>\<open>func (s *Service) TerminateInstance(instanceID string) error\<close>\<close>

definition TerminateInstance ::
  "'b EC2API \<Rightarrow> ServiceScope \<Rightarrow> string \<Rightarrow> 'b world \<Rightarrow> error option \<times> 'b world"
where
  "TerminateInstance api s instanceID w =
     (let input = [Some instanceID]
      in case changing (CallTerminateInstances input) (TerminateInstances api input) w of
        (Some err, w1) \<Rightarrow>
          (Some (Wrapf err ''failed to terminate instance with id %q'' [ArgString instanceID]), w1)
      | (None, w1) \<Rightarrow>
          (None,
           if scope_Cluster s \<noteq> None
           then Eventf Subject_scope_Cluster ''DeletedInstance'' ''Terminated instance %q''
                  [ArgString instanceID] w1
           else Eventf Subject_scope_Machine ''DeletedInstance'' ''Terminated instance %q''
                  [ArgString instanceID] w1))"

text \<open>\<^verbatim>\<open>func (s *Service) TerminateInstanceAndWait(instanceID string) error\<close>\<close>

definition TerminateInstanceAndWait ::
  "'b EC2API \<Rightarrow> ServiceScope \<Rightarrow> string \<Rightarrow> 'b world \<Rightarrow> error option \<times> 'b world"
where
  "TerminateInstanceAndWait api s instanceID w =
     (case TerminateInstance api s instanceID w of
        (Some err, w1) \<Rightarrow> (Some err, w1)
      | (None, w1) \<Rightarrow>
          (let input = \<lparr>dii_InstanceIds = [Some instanceID], dii_Filters = []\<rparr>
           in case changing (CallWaitUntilInstanceTerminated input)
                     (WaitUntilInstanceTerminated api input) w1 of
             (Some err, w2) \<Rightarrow>
               (Some (Wrapf err ''failed to wait for instance %q termination''
                        [ArgString instanceID]), w2)
           | (None, w2) \<Rightarrow> (None, w2)))"

section \<open>Updating tags\<close>

text \<open>
  \<^verbatim>\<open>func (s *Service) UpdateResourceTags(resourceID *string, create, remove map[string]string) error\<close>.
  The first statement dereferences \<^verbatim>\<open>resourceID\<close>, so a nil pointer panics before any call.
\<close>

definition UpdateResourceTags ::
  "env \<Rightarrow> 'b EC2API \<Rightarrow> ServiceScope \<Rightarrow> string option \<Rightarrow> tags_Map \<Rightarrow> tags_Map \<Rightarrow> 'b world \<Rightarrow>
   error option outcome \<times> 'b world"
where
  "UpdateResourceTags env api s resourceID create remove w =
     (case resourceID of
        None \<Rightarrow> (Panics, w)
      | Some rid \<Rightarrow>
          (case (if len create > 0
                 then (let input = \<lparr>ti_Resources = [resourceID], ti_Tags = MapToTags env create\<rparr>
                       in case changing (CallCreateTags input) (CreateTags api input) w of
                         (Some err, w1) \<Rightarrow>
                           (Some (Wrapf err ''failed to create tags for resource %q: %+v''
                                    [ArgString rid, ArgMap create]), w1)
                       | (None, w1) \<Rightarrow> (None, w1))
                 else (None, w)) of
             (Some err, w1) \<Rightarrow> (Returns (Some err), w1)
           | (None, w1) \<Rightarrow>
               (if len remove > 0
                then (let input = \<lparr>ti_Resources = [resourceID], ti_Tags = MapToTags env remove\<rparr>
                      in case changing (CallDeleteTags input) (DeleteTags api input) w1 of
                        (Some err, w2) \<Rightarrow>
                          (Returns (Some (Wrapf err ''failed to delete tags for resource %q: %v''
                                            [ArgString rid, ArgMap remove])), w2)
                      | (None, w2) \<Rightarrow> (Returns None, w2))
                else (Returns None, w1))))"

section \<open>Running an instance\<close>

text \<open>
  The request \<^verbatim>\<open>runInstance\<close> builds from the descriptor \<open>i\<close> before it calls the
  backend. The loop over \<^verbatim>\<open>i.NetworkInterfaces\<close> copies each interface into a fresh
  specification; the loop over \<^verbatim>\<open>i.Tags\<close> visits the entries of the map.
\<close>

definition runInstance_input :: "ServiceScope \<Rightarrow> Instance \<Rightarrow> RunInstancesInput" where
  "runInstance_input s i =
     (let input = \<lparr>rii_InstanceType = Some (inst_Type i),
                    rii_ImageId = Some (inst_ImageID i),
                    rii_KeyName = inst_KeyName i,
                    rii_EbsOptimized = inst_EBSOptimized i,
                    rii_MaxCount = Some 1,
                    rii_MinCount = Some 1,
                    rii_UserData = inst_UserData i,
                    rii_SubnetId = None,
                    rii_SecurityGroupIds = [],
                    rii_NetworkInterfaces = [],
                    rii_IamInstanceProfile = None,
                    rii_TagSpecifications = []\<rparr>;
          input = (if length (inst_NetworkInterfaces i) = 0
                   then (let input = input\<lparr>rii_SubnetId := Some (inst_SubnetID i)\<rparr>
                         in if length (inst_SecurityGroupIDs i) > 0
                            then input\<lparr>rii_SecurityGroupIds := map Some (inst_SecurityGroupIDs i)\<rparr>
                            else input)
                   else input);
          input = input\<lparr>rii_NetworkInterfaces :=
                    rii_NetworkInterfaces input @
                    map (\<lambda>intf. \<lparr>ni_Groups = ni_Groups intf,
                                  ni_DeviceIndex = ni_DeviceIndex intf,
                                  ni_AssociatePublicIpAddress = ni_AssociatePublicIpAddress intf,
                                  ni_SubnetId = ni_SubnetId intf\<rparr>)
                        (inst_NetworkInterfaces i)\<rparr>;
          input = (if inst_IAMProfile i \<noteq> ''''
                   then input\<lparr>rii_IamInstanceProfile := Some (inst_IAMProfile i)\<rparr>
                   else input);
          input = (if len (inst_Tags i) > 0
                   then input\<lparr>rii_TagSpecifications :=
                          rii_TagSpecifications input @
                          [\<lparr>ts_ResourceType = Some ''instance'',
                            ts_Tags = map (\<lambda>(key, value). \<lparr>tag_Key = Some key, tag_Value = Some value\<rparr>)
                                          (entries (inst_Tags i))\<rparr>]\<rparr>
                   else input)
      in input\<lparr>rii_TagSpecifications :=
                 rii_TagSpecifications input @
                 [\<lparr>ts_ResourceType = Some ''volume'',
                   ts_Tags = [\<lparr>tag_Key = Some ''clusterid'',
                               tag_Value = Some (scope_ClusterID s)\<rparr>]\<rparr>]\<rparr>)"

text \<open>
  \<^verbatim>\<open>func (s *Service) runInstance(role string, i *v1alpha1.Instance) (*v1alpha1.Instance, error)\<close>.
  It returns an instance or an error, never both. The value
  \<^verbatim>\<open>WaitUntilInstanceRunning\<close> returns is dropped by the source, and so it is here.
\<close>

definition runInstance ::
  "env \<Rightarrow> 'b EC2API \<Rightarrow> ServiceScope \<Rightarrow> string \<Rightarrow> Instance \<Rightarrow> 'b world \<Rightarrow>
   (error + Instance) \<times> 'b world"
where
  "runInstance env api s role i w =
     (let input = runInstance_input s i
      in case changing (CallRunInstances input) (RunInstances api input) w of
        (Inl err, w1) \<Rightarrow> (Inl (Wrapf err ''failed to run instance: %v'' [ArgInstance i]), w1)
      | (Inr out, w1) \<Rightarrow>
          (case res_Instances out of
             [] \<Rightarrow> (Inl (Errorf ''no instance returned for reservation %v'' [ArgReservation out]), w1)
           | inst # others \<Rightarrow>
               (let wait = \<lparr>dii_InstanceIds = [sdk_InstanceId inst], dii_Filters = []\<rparr>
                in case changing (CallWaitUntilInstanceRunning wait)
                          (WaitUntilInstanceRunning api wait) w1 of
                  (waited, w2) \<Rightarrow> (Inr (SDKToInstance env inst), w2))))"

section \<open>Creating an instance\<close>

text \<open>\<^verbatim>\<open>func buildEC2Filters(inputFilters []v1alpha1.Filter) []*ec2.Filter\<close>\<close>

definition buildEC2Filters :: "Filter_v1 list \<Rightarrow> EC2Filter list" where
  "buildEC2Filters inputFilters =
     map (\<lambda>f. Filter (Some (f_Name f)) (map Some (f_Values f))) inputFilters"

text \<open>
  The parts of \<^verbatim>\<open>createInstance\<close>, in the order of the source. First the IAM profile:
  the id if there is one, else the ARN, whose nil pointer panics.
\<close>

definition pickIAMProfile :: "MachineScope \<Rightarrow> string outcome" where
  "pickIAMProfile machine =
     (case mc_IAMInstanceProfile_ID machine of
        Some p \<Rightarrow> Returns p
      | None \<Rightarrow> (case mc_IAMInstanceProfile_ARN machine of
                   Some a \<Rightarrow> Returns a
                 | None \<Rightarrow> Panics))"

text \<open>
  The tags: \<^verbatim>\<open>tags.Build\<close>, then two more entries stored into the map it returns
  (a store into a nil map panics).
\<close>

definition buildTags :: "env \<Rightarrow> ServiceScope \<Rightarrow> MachineScope \<Rightarrow> tags_Map outcome" where
  "buildTags env s machine =
     (case Build env \<lparr>bp_ClusterName = scope_Scope_Name s,
                       bp_Lifecycle = ResourceLifecycleOwned,
                       bp_Name = Some (ms_Name machine),
                       bp_Role = Some (ms_Role machine)\<rparr> of
        NilMap \<Rightarrow> Panics
      | MakeMap res \<Rightarrow>
          Returns (MakeMap (AList.update (''kubernetes.io/cluster/'' @ ms_ClusterID machine) ''owned''
                             (AList.update ''clusterid'' (ms_ClusterID machine) res))))"

text \<open>The image: the configured one, or the default looked up.\<close>

definition pickImage :: "'b EC2API \<Rightarrow> MachineScope \<Rightarrow> 'b world \<Rightarrow> (error + string) \<times> 'b world" where
  "pickImage api machine w =
     (case mc_AMI_ID machine of
        Some ami \<Rightarrow> (Inr ami, w)
      | None \<Rightarrow>
          reading (CallDefaultAMILookup ''ubuntu'' ''18.04'' (ms_Versions_Kubelet machine))
            (defaultAMILookup api ''ubuntu'' ''18.04'' (ms_Versions_Kubelet machine)) w)"

text \<open>
  The subnet id found through the filters of \<^verbatim>\<open>MachineConfig.Subnet\<close>: the id of the
  first subnet the backend describes, and the empty string the variable starts with
  when it describes none.
\<close>

definition subnetByFilters ::
  "'b EC2API \<Rightarrow> MachineScope \<Rightarrow> AWSResourceReference \<Rightarrow> 'b world \<Rightarrow>
   (error + string) outcome \<times> 'b world"
where
  "subnetByFilters api machine subnet w =
     (let availabilityZone = mc_Placement_AvailabilityZone machine
      in case (if availabilityZone \<noteq> ''''
               then (case reading (CallDescribeAvailabilityZones [Some availabilityZone])
                            (DescribeAvailabilityZones api [Some availabilityZone]) w of
                       (Some err, w1) \<Rightarrow>
                         (Inl (Errorf ''error describing availability zones: %v'' [ArgError err]), w1)
                     | (None, w1) \<Rightarrow>
                         (Inr [\<lparr>f_Name = ''availabilityZone'', f_Values = [availabilityZone]\<rparr>], w1))
               else (Inr [], w)) of
           (Inl e, w1) \<Rightarrow> (Returns (Inl e), w1)
         | (Inr filters, w1) \<Rightarrow>
             (let filters = filters @ ref_Filters subnet
              in case reading (CallDescribeSubnets (buildEC2Filters filters))
                        (DescribeSubnets api (buildEC2Filters filters)) w1 of
                (Inl err, w2) \<Rightarrow>
                  (Returns (Inl (Errorf ''error describing subnets: %v'' [ArgError err])), w2)
              | (Inr subnets, w2) \<Rightarrow>
                  (case subnets of
                     [] \<Rightarrow> (Returns (Inr ''''), w2)
                   | n # others \<Rightarrow>
                       (case sub_SubnetId n of
                          None \<Rightarrow> (Panics, w2)
                        | Some subnetID \<Rightarrow> (Returns (Inr subnetID), w2)))))"

text \<open>
  The placement: with a \<^verbatim>\<open>MachineConfig.Subnet\<close>, a network interface on the subnet
  given or found; without one, the first private subnet of the cluster as the flat
  \<^verbatim>\<open>input.SubnetID\<close>. The result is the interface and the flat subnet id.
\<close>

definition pickSubnet ::
  "'b EC2API \<Rightarrow> ServiceScope \<Rightarrow> MachineScope \<Rightarrow> 'b world \<Rightarrow>
   (error + NetworkInterface \<times> string) outcome \<times> 'b world"
where
  "pickSubnet api s machine w =
     (case mc_Subnet machine of
        Some subnet \<Rightarrow>
          (case (case ref_ID subnet of
                   Some subnetID \<Rightarrow> (Returns (Inr subnetID), w)
                 | None \<Rightarrow> subnetByFilters api machine subnet w) of
             (Panics, w1) \<Rightarrow> (Panics, w1)
           | (Returns (Inl e), w1) \<Rightarrow> (Returns (Inl e), w1)
           | (Returns (Inr subnetID), w1) \<Rightarrow>
               (Returns (Inr (\<lparr>ni_Groups = [],
                                ni_DeviceIndex = Some (mc_DeviceIndex machine),
                                ni_AssociatePublicIpAddress = mc_PublicIP machine,
                                ni_SubnetId = Some subnetID\<rparr>, '''')), w1))
      | None \<Rightarrow>
          (case scope_Subnets_FilterPrivate s of
             [] \<Rightarrow>
               (Returns (Inl (FailedDependency
                   (Errorf ''failed to run machine %q, no subnets available''
                      [ArgString (ms_Name machine)]))), w)
           | sn # others \<Rightarrow>
               (Returns (Inr (\<lparr>ni_Groups = [], ni_DeviceIndex = None,
                                ni_AssociatePublicIpAddress = None, ni_SubnetId = None\<rparr>,
                              sn_ID sn)), w)))"

text \<open>The two checks made for every role: the CA certificate and the load balancer.\<close>

definition checkDependencies :: "ServiceScope \<Rightarrow> error option" where
  "checkDependencies s =
     (if (case scope_ClusterConfig s of
            Some cc \<Rightarrow> length (cc_CACertificate cc) = 0 | None \<Rightarrow> False)
      then Some (FailedDependency (New ''failed to run controlplane, missing CACertificate''))
      else if (case scope_Network s of
                 Some net \<Rightarrow> net_APIServerELB_DNSName net = '''' | None \<Rightarrow> False)
      then Some (FailedDependency (New ''failed to run controlplane, APIServer ELB not available''))
      else None)"

text \<open>
  The block for the role \<^verbatim>\<open>"controlplane"\<close>. \<open>Inl\<close> is an early return of
  \<^verbatim>\<open>createInstance\<close> with the pair given, \<open>Inr\<close> the descriptor to go on with.
\<close>

definition applyControlPlane ::
  "env \<Rightarrow> ServiceScope \<Rightarrow> MachineScope \<Rightarrow> Instance \<Rightarrow>
   ((Instance option \<times> error option) + Instance) outcome"
where
  "applyControlPlane env s machine input =
     (if ms_Role machine = ''controlplane''
      then (case scope_Scope_SecurityGroups s SecurityGroupControlPlane of
              None \<Rightarrow>
                Returns (Inl (None, Some (FailedDependency
                  (New ''failed to run controlplane, security group not available''))))
            | Some sg \<Rightarrow>
                (case scope_ClusterConfig s of
                   None \<Rightarrow> Panics
                 | Some cc \<Rightarrow>
                     if length (cc_CAPrivateKey cc) = 0
                     then Returns (Inl (None, Some (FailedDependency
                            (New ''failed to run controlplane, missing CAPrivateKey''))))
                     else (case scope_Network s of
                             None \<Rightarrow> Panics
                           | Some net \<Rightarrow>
                          (case scope_Cluster s of
                             None \<Rightarrow> Panics
                           | Some cluster \<Rightarrow>
                          (case cl_Pods_CIDRBlocks cluster of
                             [] \<Rightarrow> Panics
                           | pods # ps \<Rightarrow>
                          (case cl_Services_CIDRBlocks cluster of
                             [] \<Rightarrow> Panics
                           | services # ss \<Rightarrow>
                          (case NewControlPlane env
                                  \<lparr>cpi_CACert = cc_CACertificate cc,
                                   cpi_CAKey = cc_CAPrivateKey cc,
                                   cpi_ELBAddress = net_APIServerELB_DNSName net,
                                   cpi_ClusterName = scope_Name s,
                                   cpi_PodSubnet = pods,
                                   cpi_ServiceSubnet = services,
                                   cpi_ServiceDomain = cl_ServiceDomain cluster,
                                   cpi_KubernetesVersion = ms_Versions_ControlPlane machine\<rparr> of
                             Inl err \<Rightarrow> Returns (Inl (Some input, Some err))
                           | Inr userData \<Rightarrow>
                               Returns (Inr (input\<lparr>inst_UserData := Some userData,
                                                   inst_SecurityGroupIDs :=
                                                     inst_SecurityGroupIDs input @ [sg_ID sg]\<rparr>)))))))))
      else Returns (Inr input))"

text \<open>
  The block for the role \<^verbatim>\<open>"node"\<close>. The loop that fills the interface's groups appends
  \<^verbatim>\<open>&group\<close>, the address of its loop variable: with the loop semantics of Go before
  1.22, which this code is written for, every pointer appended reads the last id.
\<close>

definition applyNode ::
  "env \<Rightarrow> 'b EC2API \<Rightarrow> ServiceScope \<Rightarrow> MachineScope \<Rightarrow> string \<Rightarrow> NetworkInterface \<Rightarrow> Instance \<Rightarrow>
   'b world \<Rightarrow> ((Instance option \<times> error option) + Instance) outcome \<times> 'b world"
where
  "applyNode env api s machine bootstrapToken networkInterface input w =
     (if ms_Role machine = ''node''
      then (case (if scope_Scope_Cluster s \<noteq> None
                  then (case scope_Scope_SecurityGroups s SecurityGroupNode of
                          None \<Rightarrow> Panics
                        | Some sg \<Rightarrow> Returns (inst_SecurityGroupIDs input @ [sg_ID sg]))
                  else Returns (inst_SecurityGroupIDs input)) of
              Panics \<Rightarrow> (Panics, w)
            | Returns ids \<Rightarrow>
                (let ids = ids @ scope_SecurityGroups s;
                     networkInterface = networkInterface\<lparr>ni_Groups :=
                        ni_Groups networkInterface @ replicate (length ids) (last ids)\<rparr>;
                     input = input\<lparr>inst_SecurityGroupIDs := ids,
                                   inst_NetworkInterfaces := [networkInterface]\<rparr>
                 in if scope_Scope_Cluster s = None \<and> mc_UserDataSecret_Name machine \<noteq> None
                    then (case ms_Scope_KubeClient machine of
                            None \<Rightarrow> (Panics, w)
                          | Some kubeClient \<Rightarrow>
                              (case reading (CallSecretsGet (ms_Namespace machine)
                                               (the (mc_UserDataSecret_Name machine)))
                                      (SecretsGet api (ms_Namespace machine)
                                         (the (mc_UserDataSecret_Name machine))) w of
                                 (Inl err, w1) \<Rightarrow> (Returns (Inl (Some input, Some err)), w1)
                               | (Inr userDataSecret, w1) \<Rightarrow>
                                   (case sec_Data userDataSecret ''userData'' of
                                      Some data \<Rightarrow>
                                        (Returns (Inr (input\<lparr>inst_UserData :=
                                                         Some (EncodeToString env data)\<rparr>)), w1)
                                    | None \<Rightarrow> (Returns (Inr input), w1))))
                    else (case scope_ClusterConfig s of
                            None \<Rightarrow> (Panics, w)
                          | Some cc \<Rightarrow>
                              (case GenerateCertificateHash env (cc_CACertificate cc) of
                                 Inl err \<Rightarrow> (Returns (Inl (Some input, Some err)), w)
                               | Inr caCertHash \<Rightarrow>
                                   (case scope_Network s of
                                      None \<Rightarrow> (Panics, w)
                                    | Some net \<Rightarrow>
                                        (case NewNode env
                                                \<lparr>ndi_CACertHash = caCertHash,
                                                 ndi_BootstrapToken = bootstrapToken,
                                                 ndi_ELBAddress = net_APIServerELB_DNSName net\<rparr> of
                                           Inl err \<Rightarrow> (Returns (Inl (Some input, Some err)), w)
                                         | Inr userData \<Rightarrow>
                                             (Returns (Inr (input\<lparr>inst_UserData := Some userData\<rparr>)),
                                              w)))))))
      else (Returns (Inr input), w))"

text \<open>The SSH key, if one is configured.\<close>

definition pickKey :: "MachineScope \<Rightarrow> Instance \<Rightarrow> Instance" where
  "pickKey machine input =
     (if mc_KeyName machine \<noteq> ''''
      then input\<lparr>inst_KeyName := Some (mc_KeyName machine)\<rparr>
      else input)"

text \<open>The end of \<^verbatim>\<open>createInstance\<close>: the run, and the event once it has succeeded.\<close>

definition runAndRecord ::
  "env \<Rightarrow> 'b EC2API \<Rightarrow> ServiceScope \<Rightarrow> MachineScope \<Rightarrow> Instance \<Rightarrow> 'b world \<Rightarrow>
   (Instance option \<times> error option) outcome \<times> 'b world"
where
  "runAndRecord env api s machine input w =
     (case runInstance env api s (ms_Role machine) input w of
        (Inl err, w1) \<Rightarrow> (Returns (None, Some err), w1)
      | (Inr out, w1) \<Rightarrow>
          (Returns (Some out, None),
           Eventf Subject_machine_Machine ''CreatedInstance''
             ''Created new %s instance with id %q''
             [ArgString (ms_Role machine), ArgString (inst_ID out)] w1))"

text \<open>
  \<^verbatim>\<open>func (s *Service) createInstance(machine, bootstrapToken) (*v1alpha1.Instance, error)\<close>.
  The result is the pair the Go function returns, or a panic.
\<close>

definition createInstance ::
  "env \<Rightarrow> 'b EC2API \<Rightarrow> ServiceScope \<Rightarrow> MachineScope \<Rightarrow> string \<Rightarrow> 'b world \<Rightarrow>
   (Instance option \<times> error option) outcome \<times> 'b world"
where
  "createInstance env api s machine bootstrapToken w =
     (case pickIAMProfile machine of
        Panics \<Rightarrow> (Panics, w)
      | Returns iAMProfile \<Rightarrow>
     (case buildTags env s machine of
        Panics \<Rightarrow> (Panics, w)
      | Returns tags \<Rightarrow>
     (let input = \<lparr>inst_ID = '''',
                   inst_Type = mc_InstanceType machine,
                   inst_ImageID = '''',
                   inst_IAMProfile = iAMProfile,
                   inst_SubnetID = '''',
                   inst_KeyName = None,
                   inst_EBSOptimized = None,
                   inst_UserData = None,
                   inst_SecurityGroupIDs = [],
                   inst_NetworkInterfaces = [],
                   inst_Tags = tags\<rparr>
      in case pickImage api machine w of
        (Inl err, w1) \<Rightarrow> (Returns (None, Some err), w1)
      | (Inr imageID, w1) \<Rightarrow>
     (case pickSubnet api s machine w1 of
        (Panics, w2) \<Rightarrow> (Panics, w2)
      | (Returns (Inl err), w2) \<Rightarrow> (Returns (None, Some err), w2)
      | (Returns (Inr (networkInterface, subnetID)), w2) \<Rightarrow>
     (case checkDependencies s of
        Some err \<Rightarrow> (Returns (None, Some err), w2)
      | None \<Rightarrow>
     (case applyControlPlane env s machine
             (input\<lparr>inst_ImageID := imageID, inst_SubnetID := subnetID\<rparr>) of
        Panics \<Rightarrow> (Panics, w2)
      | Returns (Inl r) \<Rightarrow> (Returns r, w2)
      | Returns (Inr input) \<Rightarrow>
     (case applyNode env api s machine bootstrapToken networkInterface input w2 of
        (Panics, w3) \<Rightarrow> (Panics, w3)
      | (Returns (Inl r), w3) \<Rightarrow> (Returns r, w3)
      | (Returns (Inr input), w3) \<Rightarrow>
          runAndRecord env api s machine (pickKey machine input) w3)))))))"

section \<open>Creating or getting a machine\<close>



section \<open>A small backend to run the model on\<close>

text \<open>
  Concrete collaborators: the backend state is the list of instances that exist.
  A describe call by id fails with the backend's not-found error when no such instance
  exists; a run call adds the instance \<open>i-1\<close>; a terminate call removes the instances named.
\<close>

definition demo_env :: env where
  "demo_env =
     \<lparr>IsNotFound = (\<lambda>e. e = Some (AWSError ''InvalidInstanceID.NotFound'')),
      SDKToInstance = (\<lambda>i. \<lparr>inst_ID = (case sdk_InstanceId i of Some x \<Rightarrow> x | None \<Rightarrow> ''''),
                               inst_Type = '''', inst_ImageID = '''', inst_IAMProfile = '''',
                               inst_SubnetID = '''', inst_KeyName = None, inst_EBSOptimized = None,
                               inst_UserData = None, inst_SecurityGroupIDs = [],
                               inst_NetworkInterfaces = [], inst_Tags = NilMap\<rparr>),
      MapToTags = (\<lambda>m. map (\<lambda>(k, v). \<lparr>tag_Key = Some k, tag_Value = Some v\<rparr>) (entries m)),
      Build = (\<lambda>p. MakeMap [(''Name'', case bp_Name p of Some n \<Rightarrow> n | None \<Rightarrow> '''')]),
      NewControlPlane = (\<lambda>i. Inr ''controlplane-userdata''),
      NewNode = (\<lambda>i. Inr ''node-userdata''),
      GenerateCertificateHash = (\<lambda>c. Inr ''sha256:0000''),
      EncodeToString = (\<lambda>d. d)\<rparr>"

definition demo_api :: "SDKInstance list EC2API" where
  "demo_api =
     \<lparr>DescribeInstances =
        (\<lambda>inp b.
           if dii_InstanceIds inp = []
           then Inr \<lparr>dio_Reservations = (if b = [] then [] else [\<lparr>res_Instances = b\<rparr>])\<rparr>
           else (case filter (\<lambda>i. sdk_InstanceId i \<in> set (dii_InstanceIds inp)) b of
                   [] \<Rightarrow> Inl (AWSError ''InvalidInstanceID.NotFound'')
                 | x # xs \<Rightarrow> Inr \<lparr>dio_Reservations = [\<lparr>res_Instances = x # xs\<rparr>]\<rparr>)),
      DescribeAvailabilityZones = (\<lambda>zones b. None),
      DescribeSubnets = (\<lambda>filters b. Inr []),
      defaultAMILookup = (\<lambda>distribution version kubelet b. Inr ''ami-default''),
      SecretsGet = (\<lambda>namespace name b. Inl (AWSError ''NotFound'')),
      RunInstances =
        (\<lambda>inp b. (Inr \<lparr>res_Instances = [\<lparr>sdk_InstanceId = Some ''i-1'', sdk_State = ''pending''\<rparr>]\<rparr>,
                   b @ [\<lparr>sdk_InstanceId = Some ''i-1'', sdk_State = ''pending''\<rparr>])),
      WaitUntilInstanceRunning = (\<lambda>inp b. (None, b)),
      TerminateInstances =
        (\<lambda>ids b. (None, filter (\<lambda>i. sdk_InstanceId i \<notin> set ids) b)),
      WaitUntilInstanceTerminated = (\<lambda>inp b. (None, b)),
      CreateTags = (\<lambda>inp b. (None, b)),
      DeleteTags = (\<lambda>inp b. (None, b))\<rparr>"

definition demo_scope :: ServiceScope where
  "demo_scope =
     \<lparr>scope_Name = ''c1'',
      scope_Scope_Name = ''c1'',
      scope_ClusterID = ''c1-id'',
      scope_Subnets_FilterPrivate = [\<lparr>sn_ID = ''sn-1''\<rparr>, \<lparr>sn_ID = ''sn-2''\<rparr>],
      scope_ClusterConfig = Some \<lparr>cc_CACertificate = ''cert'', cc_CAPrivateKey = ''key''\<rparr>,
      scope_Network = Some \<lparr>net_APIServerELB_DNSName = ''elb.example''\<rparr>,
      scope_Scope_SecurityGroups =
        (\<lambda>r. case r of SecurityGroupControlPlane \<Rightarrow> Some \<lparr>sg_ID = ''sg-cp''\<rparr>
                      | SecurityGroupNode \<Rightarrow> Some \<lparr>sg_ID = ''sg-node''\<rparr>
                      | SecurityGroupBastion \<Rightarrow> None),
      scope_SecurityGroups = [''sg-extra''],
      scope_Cluster = Some \<lparr>cl_Pods_CIDRBlocks = [''10.0.0.0/16''],
                             cl_Services_CIDRBlocks = [''10.1.0.0/16''],
                             cl_ServiceDomain = ''cluster.local''\<rparr>,
      scope_Scope_Cluster = Some \<lparr>cl_Pods_CIDRBlocks = [''10.0.0.0/16''],
                                   cl_Services_CIDRBlocks = [''10.1.0.0/16''],
                                   cl_ServiceDomain = ''cluster.local''\<rparr>\<rparr>"

definition demo_machine :: MachineScope where
  "demo_machine =
     \<lparr>ms_Name = ''m1'',
      ms_Role = ''node'',
      ms_ClusterID = ''c1-id'',
      ms_Namespace = ''default'',
      ms_MachineStatus_InstanceID = None,
      ms_Versions_Kubelet = ''1.13'',
      ms_Versions_ControlPlane = ''1.13'',
      ms_Scope_KubeClient = Some KubeClient,
      mc_IAMInstanceProfile_ID = Some ''profile'',
      mc_IAMInstanceProfile_ARN = None,
      mc_InstanceType = ''m4.large'',
      mc_AMI_ID = Some ''ami-1'',
      mc_Subnet = None,
      mc_Placement_AvailabilityZone = '''',
      mc_DeviceIndex = 0,
      mc_PublicIP = None,
      mc_KeyName = '''',
      mc_UserDataSecret_Name = None\<rparr>"

definition demo_world :: "SDKInstance list \<Rightarrow> SDKInstance list world" where
  "demo_world b = \<lparr>backend = b, calls = [], events = []\<rparr>"

definition faulty_api :: "SDKInstance list EC2API" where
  "faulty_api = demo_api
     \<lparr>DescribeInstances :=
        (\<lambda>inp b. if dii_InstanceIds inp = [] then Inl (AWSError ''RequestLimitExceeded'')
                  else Inl (AWSError ''InvalidInstanceID.NotFound'')),
      WaitUntilInstanceRunning := (\<lambda>inp b. (Some (AWSError ''ResourceNotReady''), b)),
      WaitUntilInstanceTerminated := (\<lambda>inp b. (Some (AWSError ''ResourceNotReady''), b))\<rparr>"

definition demo_instance :: Instance where
  "demo_instance =
     \<lparr>inst_ID = '''', inst_Type = ''m4.large'', inst_ImageID = ''ami-1'',
      inst_IAMProfile = ''profile'', inst_SubnetID = ''sn-1'', inst_KeyName = None,
      inst_EBSOptimized = None, inst_UserData = None, inst_SecurityGroupIDs = [''sg-node''],
      inst_NetworkInterfaces = [], inst_Tags = MakeMap [(''Name'', ''m1'')]\<rparr>"

definition demo_interface :: NetworkInterface where
  "demo_interface =
     \<lparr>ni_Groups = [''sg-node''], ni_DeviceIndex = Some 0,
      ni_AssociatePublicIpAddress = None, ni_SubnetId = Some ''sn-1''\<rparr>"



definition filtered_machine :: "string \<Rightarrow> MachineScope" where
  "filtered_machine role = demo_machine
     \<lparr>ms_Role := role,
      mc_Subnet := Some \<lparr>ref_ID = None,
                          ref_Filters = [\<lparr>f_Name = ''tag:Name'', f_Values = [''private'']\<rparr>]\<rparr>\<rparr>"




section \<open>Properties of the tag map\<close>

lemma Difference_loop_lookup:
  "distinct (map fst xs) \<Longrightarrow>
   map_of (Difference_loop xs other res) k =
     (case map_of xs k of
        None \<Rightarrow> map_of res k
      | Some v \<Rightarrow> if lookup other k = Some v then map_of res k else Some v)"
proof (induction xs arbitrary: res)
  case Nil
  then show ?case by simp
next
  case (Cons p xs)
  obtain key val where p: "p = (key, val)" by (cases p)
  from Cons.prems p have d: "distinct (map fst xs)" and nk: "key \<notin> fst ` set xs"
    by auto
  from nk have none: "map_of xs key = None"
    by (simp add: map_of_eq_None_iff)
  show ?case
    using Cons.IH [OF d] none p
    by (auto simp: update_conv' split: option.splits)
qed

lemma Difference_loop_distinct:
  "distinct (map fst res) \<Longrightarrow> distinct (map fst (Difference_loop xs other res))"
  by (induction xs other res rule: Difference_loop.induct) (auto simp: distinct_update)

lemma Difference_loop_all_equal:
  "list_all (\<lambda>(k, v). lookup other k = Some v) xs \<Longrightarrow> Difference_loop xs other res = res"
  by (induction xs other res rule: Difference_loop.induct) auto

lemma wf_Map_lookup_entries:
  "wf_Map m \<Longrightarrow> list_all (\<lambda>(k, v). lookup m k = Some v) (entries m)"
  by (auto simp: wf_Map_def lookup_def list_all_iff)

lemma wf_Map_Difference: "wf_Map (Difference m other)"
  by (simp add: wf_Map_def Difference_def Difference_loop_distinct)

text \<open>
  C4. For a tag map \<open>A\<close> (with distinct keys, as every Go map has) and any \<open>B\<close>, the
  map \<open>Difference A B\<close> holds the pair \<open>(k, v)\<close> exactly when \<open>A\<close> holds it and \<open>B\<close> either
  lacks the key \<open>k\<close> or maps it to another value; and \<open>Difference A A\<close> is the empty map.
\<close>

theorem Difference_exact:
  "wf_Map A \<Longrightarrow>
     ((lookup (Difference A B) k = Some v) =
        (lookup A k = Some v \<and>
         (lookup B k = None \<or> (\<exists>v'. lookup B k = Some v' \<and> v' \<noteq> v)))) \<and>
     Difference A A = MakeMap [] \<and> len (Difference A A) = 0"
proof -
  assume wf: "wf_Map A"
  then have d: "distinct (map fst (entries A))" by (simp add: wf_Map_def)
  have l: "lookup (Difference A B) k =
      (case lookup A k of None \<Rightarrow> None
       | Some w \<Rightarrow> if lookup B k = Some w then None else Some w)"
    using Difference_loop_lookup [OF d, of B "[]" k]
    by (simp add: Difference_def lookup_def split: option.splits)
  have one: "(lookup (Difference A B) k = Some v) =
        (lookup A k = Some v \<and>
         (lookup B k = None \<or> (\<exists>v'. lookup B k = Some v' \<and> v' \<noteq> v)))"
    unfolding l by (cases "lookup A k"; cases "lookup B k") auto
  have two: "Difference A A = MakeMap []"
    using Difference_loop_all_equal [OF wf_Map_lookup_entries [OF wf], of "[]"]
    by (simp add: Difference_def)
  show ?thesis using one two by (simp add: len_def)
qed

theorem Difference_exact_witness:
  "wf_Map (MakeMap [(''Name'', ''m1''), (''role'', ''node''), (''env'', ''dev'')]) \<and>
   lookup (Difference (MakeMap [(''Name'', ''m1''), (''role'', ''node''), (''env'', ''dev'')])
                      (MakeMap [(''role'', ''master''), (''Name'', ''m1'')])) ''role'' = Some ''node'' \<and>
   lookup (Difference (MakeMap [(''Name'', ''m1''), (''role'', ''node''), (''env'', ''dev'')])
                      (MakeMap [(''role'', ''master''), (''Name'', ''m1'')])) ''env'' = Some ''dev'' \<and>
   lookup (Difference (MakeMap [(''Name'', ''m1''), (''role'', ''node''), (''env'', ''dev'')])
                      (MakeMap [(''role'', ''master''), (''Name'', ''m1'')])) ''Name'' \<noteq> Some ''m1'' \<and>
   Difference (MakeMap [(''Name'', ''m1''), (''role'', ''node''), (''env'', ''dev'')])
              (MakeMap [(''Name'', ''m1''), (''role'', ''node''), (''env'', ''dev'')]) = MakeMap []"
proof -
  let ?A = "MakeMap [(''Name'', ''m1''), (''role'', ''node''), (''env'', ''dev'')]"
  let ?B = "MakeMap [(''role'', ''master''), (''Name'', ''m1'')]"
  have wf: "wf_Map ?A" by (simp add: wf_Map_def)
  have b: "lookup ?B ''role'' = Some ''master''" "lookup ?B ''env'' = None"
    "lookup ?B ''Name'' = Some ''m1''"
    by (simp_all add: lookup_def)
  have a: "lookup ?A ''role'' = Some ''node''" "lookup ?A ''env'' = Some ''dev''"
    "lookup ?A ''Name'' = Some ''m1''"
    by (simp_all add: lookup_def)
  show ?thesis
    using wf Difference_exact [OF wf, of ?B "''role''" "''node''"]
      Difference_exact [OF wf, of ?B "''env''" "''dev''"]
      Difference_exact [OF wf, of ?B "''Name''" "''m1''"]
    by (simp add: a b)
qed

lemma DeepEqual_sets:
  assumes "distinct (map fst xs)" "length xs = length ys"
    and "list_all (\<lambda>(k, v). map_of ys k = Some v) xs"
  shows "set xs = set ys"
proof -
  have sub: "set xs \<subseteq> set ys"
    using assms(3) by (auto simp: list_all_iff dest: map_of_SomeD)
  have dx: "distinct xs" using assms(1) by (rule distinct_map [THEN iffD1, THEN conjunct1])
  have "card (set ys) \<le> length ys" by (rule card_length)
  also have "\<dots> = card (set xs)" using dx assms(2) by (simp add: distinct_card)
  finally show ?thesis using sub by (simp add: card_seteq)
qed

lemma DeepEqual_sym_imp:
  assumes "wf_Map a" "wf_Map b" "DeepEqual a b"
  shows "DeepEqual b a"
proof -
  from assms(3) have nil: "(a = NilMap) = (b = NilMap)" and ln: "len a = len b"
    and al: "list_all (\<lambda>(k, v). map_of (entries b) k = Some v) (entries a)"
    by (simp_all add: DeepEqual_def lookup_def)
  have "set (entries a) = set (entries b)"
    using assms(1) ln al by (intro DeepEqual_sets) (simp_all add: wf_Map_def len_def)
  then have "list_all (\<lambda>(k, v). lookup a k = Some v) (entries b)"
    using wf_Map_lookup_entries [OF assms(1)] by (simp add: list_all_iff)
  with nil ln show ?thesis by (auto simp: DeepEqual_def)
qed

text \<open>
  C5, as the code has it. \<open>Equals\<close> is reflexive and symmetric on tag maps; two nil maps
  are equal and two empty non-nil maps are equal, but \<^verbatim>\<open>reflect.DeepEqual\<close> tells a nil
  map from an empty non-nil one: two maps without entries are equal exactly when both
  are nil or both are non-nil.
\<close>

theorem Equals_refl_sym_empty:
  "wf_Map A \<Longrightarrow> wf_Map B \<Longrightarrow>
     Equals A A \<and> (Equals A B = Equals B A) \<and>
     (len A = 0 \<and> len B = 0 \<longrightarrow> Equals A B = ((A = NilMap) = (B = NilMap)))"
proof -
  assume a: "wf_Map A" and b: "wf_Map B"
  have r: "Equals A A"
    using wf_Map_lookup_entries [OF a] by (simp add: Equals_def DeepEqual_def)
  have s: "Equals A B = Equals B A"
    unfolding Equals_def using DeepEqual_sym_imp [OF a b] DeepEqual_sym_imp [OF b a] by blast
  have e: "len A = 0 \<and> len B = 0 \<longrightarrow> Equals A B = ((A = NilMap) = (B = NilMap))"
    by (auto simp: Equals_def DeepEqual_def len_def)
  from r s e show ?thesis by simp
qed

theorem Equals_refl_sym_empty_witness:
  "wf_Map (MakeMap [(''a'', ''1''), (''b'', ''2'')]) \<and>
   wf_Map (MakeMap [(''b'', ''2''), (''a'', ''1'')]) \<and>
   Equals (MakeMap [(''a'', ''1''), (''b'', ''2'')]) (MakeMap [(''a'', ''1''), (''b'', ''2'')]) \<and>
   Equals (MakeMap [(''a'', ''1''), (''b'', ''2'')]) (MakeMap [(''b'', ''2''), (''a'', ''1'')]) \<and>
   Equals (MakeMap [(''b'', ''2''), (''a'', ''1'')]) (MakeMap [(''a'', ''1''), (''b'', ''2'')]) \<and>
   wf_Map (MakeMap []) \<and> wf_Map NilMap \<and> len (MakeMap []) = 0 \<and> len NilMap = 0 \<and>
   Equals (MakeMap []) (MakeMap []) \<and> Equals NilMap NilMap \<and>
   \<not> Equals (MakeMap []) NilMap"
proof -
  let ?A = "MakeMap [(''a'', ''1''), (''b'', ''2'')]"
  let ?B = "MakeMap [(''b'', ''2''), (''a'', ''1'')]"
  have a: "wf_Map ?A" and b: "wf_Map ?B" and e: "wf_Map (MakeMap [])" and n: "wf_Map NilMap"
    by (simp_all add: wf_Map_def)
  have ab: "Equals ?A ?B"
    by (simp add: Equals_def DeepEqual_def len_def lookup_def)
  show ?thesis
    using a b e n ab Equals_refl_sym_empty [OF a b] Equals_refl_sym_empty [OF e n]
      Equals_refl_sym_empty [OF n n]
    by (auto simp: len_def)
qed

text \<open>
  C5 as the specification words it fails: a nil tag map and an empty non-nil tag map are
  both empty tag sets, and \<open>Equals\<close> answers false on them.
\<close>

theorem Equals_nil_empty_counterexample:
  "len NilMap = 0 \<and> len (MakeMap []) = 0 \<and> \<not> Equals NilMap (MakeMap [])"
  by (simp add: Equals_def DeepEqual_def len_def)

section \<open>Properties of the instance service\<close>

lemma reading_simps [simp]:
  "fst (reading c f w) = f (backend w)"
  "calls (snd (reading c f w)) = calls w @ [c]"
  "backend (snd (reading c f w)) = backend w"
  "events (snd (reading c f w)) = events w"
  by (simp_all add: reading_def log_def)

lemma changing_simps [simp]:
  "fst (changing c f w) = fst (f (backend w))"
  "calls (snd (changing c f w)) = calls w @ [c]"
  "backend (snd (changing c f w)) = snd (f (backend w))"
  "events (snd (changing c f w)) = events w"
  by (simp_all add: changing_def log_def split: prod.splits)

lemma Eventf_simps [simp]:
  "calls (Eventf obj r f as w) = calls w"
  "backend (Eventf obj r f as w) = backend w"
  "events (Eventf obj r f as w) = events w @ [Event obj r f as]"
  by (simp_all add: Eventf_def)

text \<open>
  C6. When the describe call fails, each finder returns no instance and no error if the
  error is a not-found error, and no instance and the wrapped error if it is any other
  error.
\<close>

theorem finders_soft_hard:
  "(DescribeInstances api
      \<lparr>dii_InstanceIds = [Some iid],
       dii_Filters = [InstanceStates [''pending'', ''running'']]\<rparr> (backend w) = Inl e \<longrightarrow>
    fst (InstanceIfExists env api s iid w) =
      (if IsNotFound env (Some e) then (None, None)
       else (None, Some (Wrapf e ''failed to describe instance: %q'' [ArgString iid])))) \<and>
   (DescribeInstances api
      \<lparr>dii_InstanceIds = [],
       dii_Filters = [ClusterOwned (scope_Name s), NameFilter (ms_Name machine),
                      InstanceStates [''pending'', ''running'']]\<rparr> (backend w) = Inl e \<longrightarrow>
    fst (InstanceByTags env api s machine w) =
      (if IsNotFound env (Some e) then (None, None)
       else (None, Some (Wrapf e ''failed to describe instances by tags'' []))))"
  by (simp add: InstanceIfExists_def InstanceByTags_def reading_def split: prod.splits)

theorem finders_soft_hard_witness:
  "DescribeInstances faulty_api
     \<lparr>dii_InstanceIds = [Some ''i-123''],
      dii_Filters = [InstanceStates [''pending'', ''running'']]\<rparr> (backend (demo_world [])) =
     Inl (AWSError ''InvalidInstanceID.NotFound'') \<and>
   DescribeInstances faulty_api
     \<lparr>dii_InstanceIds = [],
      dii_Filters = [ClusterOwned (scope_Name demo_scope), NameFilter (ms_Name demo_machine),
                     InstanceStates [''pending'', ''running'']]\<rparr> (backend (demo_world [])) =
     Inl (AWSError ''RequestLimitExceeded'') \<and>
   fst (InstanceIfExists demo_env faulty_api demo_scope ''i-123'' (demo_world [])) = (None, None) \<and>
   fst (InstanceByTags demo_env faulty_api demo_scope demo_machine (demo_world [])) =
     (None, Some (Wrapf (AWSError ''RequestLimitExceeded'')
                    ''failed to describe instances by tags'' []))"
proof -
  have a: "DescribeInstances faulty_api
     \<lparr>dii_InstanceIds = [Some ''i-123''],
      dii_Filters = [InstanceStates [''pending'', ''running'']]\<rparr> (backend (demo_world [])) =
     Inl (AWSError ''InvalidInstanceID.NotFound'')"
    by (simp add: faulty_api_def)
  have b: "DescribeInstances faulty_api
     \<lparr>dii_InstanceIds = [],
      dii_Filters = [ClusterOwned (scope_Name demo_scope), NameFilter (ms_Name demo_machine),
                     InstanceStates [''pending'', ''running'']]\<rparr> (backend (demo_world [])) =
     Inl (AWSError ''RequestLimitExceeded'')"
    by (simp add: faulty_api_def)
  show ?thesis
    using a b
      finders_soft_hard [of faulty_api "''i-123''" "demo_world []"
        "AWSError ''InvalidInstanceID.NotFound''" demo_env demo_scope demo_machine]
      finders_soft_hard [of faulty_api "''i-123''" "demo_world []"
        "AWSError ''RequestLimitExceeded''" demo_env demo_scope demo_machine]
    by (simp add: demo_env_def)
qed

text \<open>
  C8. When the terminate call succeeds and the wait for termination fails,
  \<open>TerminateInstanceAndWait\<close> returns the wait's error wrapped as a wait failure, which
  is never the wrapping of a terminate failure, and the run has recorded exactly one
  event, the termination event; the calls issued are the terminate call and the wait.
\<close>

theorem TerminateInstanceAndWait_wait_error:
  assumes "TerminateInstances api [Some iid] (backend w) = (None, b1)"
    and "WaitUntilInstanceTerminated api
           \<lparr>dii_InstanceIds = [Some iid], dii_Filters = []\<rparr> b1 = (Some e, b2)"
  shows "fst (TerminateInstanceAndWait api s iid w) =
           Some (Wrapf e ''failed to wait for instance %q termination'' [ArgString iid]) \<and>
         (\<forall>e' as. fst (TerminateInstanceAndWait api s iid w) \<noteq>
            Some (Wrapf e' ''failed to terminate instance with id %q'' as)) \<and>
         events (snd (TerminateInstanceAndWait api s iid w)) =
           events w @ recorded w (snd (TerminateInstanceAndWait api s iid w)) \<and>
         recorded w (snd (TerminateInstanceAndWait api s iid w)) =
           [Event (if scope_Cluster s \<noteq> None then Subject_scope_Cluster else Subject_scope_Machine)
              ''DeletedInstance'' ''Terminated instance %q'' [ArgString iid]] \<and>
         calls (snd (TerminateInstanceAndWait api s iid w)) =
           calls w @ [CallTerminateInstances [Some iid],
                      CallWaitUntilInstanceTerminated
                        \<lparr>dii_InstanceIds = [Some iid], dii_Filters = []\<rparr>]"
  using assms
  by (simp add: TerminateInstanceAndWait_def TerminateInstance_def changing_def log_def
      Eventf_def recorded_def split: prod.splits)

theorem TerminateInstanceAndWait_wait_error_witness:
  "TerminateInstances faulty_api [Some ''i-123'']
     (backend (demo_world [\<lparr>sdk_InstanceId = Some ''i-123'', sdk_State = ''running''\<rparr>])) = (None, []) \<and>
   WaitUntilInstanceTerminated faulty_api
     \<lparr>dii_InstanceIds = [Some ''i-123''], dii_Filters = []\<rparr> [] =
     (Some (AWSError ''ResourceNotReady''), []) \<and>
   fst (TerminateInstanceAndWait faulty_api demo_scope ''i-123''
          (demo_world [\<lparr>sdk_InstanceId = Some ''i-123'', sdk_State = ''running''\<rparr>])) =
     Some (Wrapf (AWSError ''ResourceNotReady'') ''failed to wait for instance %q termination''
             [ArgString ''i-123'']) \<and>
   events (snd (TerminateInstanceAndWait faulty_api demo_scope ''i-123''
          (demo_world [\<lparr>sdk_InstanceId = Some ''i-123'', sdk_State = ''running''\<rparr>]))) =
     [Event Subject_scope_Cluster ''DeletedInstance'' ''Terminated instance %q''
        [ArgString ''i-123'']]"
proof -
  let ?w = "demo_world [\<lparr>sdk_InstanceId = Some ''i-123'', sdk_State = ''running''\<rparr>]"
  have a: "TerminateInstances faulty_api [Some ''i-123''] (backend ?w) = (None, [])"
    by (simp add: faulty_api_def demo_api_def demo_world_def)
  have b: "WaitUntilInstanceTerminated faulty_api
     \<lparr>dii_InstanceIds = [Some ''i-123''], dii_Filters = []\<rparr> [] =
     (Some (AWSError ''ResourceNotReady''), [])"
    by (simp add: faulty_api_def)
  show ?thesis
    using a b TerminateInstanceAndWait_wait_error [OF a b, of demo_scope]
    by (simp add: demo_scope_def demo_world_def)
qed

lemma UpdateResourceTags_trace:
  "calls (snd (UpdateResourceTags env api s resourceID create remove w)) =
     calls w @
     (case resourceID of
        None \<Rightarrow> []
      | Some rid \<Rightarrow>
          (if len create > 0
           then CallCreateTags \<lparr>ti_Resources = [resourceID], ti_Tags = MapToTags env create\<rparr> #
                (if fst (CreateTags api \<lparr>ti_Resources = [resourceID], ti_Tags = MapToTags env create\<rparr>
                           (backend w)) = None \<and> len remove > 0
                 then [CallDeleteTags \<lparr>ti_Resources = [resourceID], ti_Tags = MapToTags env remove\<rparr>]
                 else [])
           else if len remove > 0
           then [CallDeleteTags \<lparr>ti_Resources = [resourceID], ti_Tags = MapToTags env remove\<rparr>]
           else []))"
  by (auto simp add: UpdateResourceTags_def changing_def log_def Let_def
      split: option.splits prod.splits)

text \<open>
  C9. With a resource id, a non-empty create map and an empty remove map,
  \<open>UpdateResourceTags\<close> issues exactly one call, a create-tags call, and no delete-tags
  call; and whenever a run issues a delete-tags call, the remove map is non-empty.
\<close>

theorem UpdateResourceTags_calls:
  "calls (snd (UpdateResourceTags env api s resourceID create remove w)) =
     calls w @ issued w (snd (UpdateResourceTags env api s resourceID create remove w)) \<and>
   (resourceID \<noteq> None \<and> len create > 0 \<and> len remove = 0 \<longrightarrow>
      issued w (snd (UpdateResourceTags env api s resourceID create remove w)) =
        [CallCreateTags \<lparr>ti_Resources = [resourceID], ti_Tags = MapToTags env create\<rparr>] \<and>
      length (filter isCreateTags
        (issued w (snd (UpdateResourceTags env api s resourceID create remove w)))) = 1 \<and>
      length (filter isDeleteTags
        (issued w (snd (UpdateResourceTags env api s resourceID create remove w)))) = 0) \<and>
   (filter isDeleteTags
      (issued w (snd (UpdateResourceTags env api s resourceID create remove w))) \<noteq> [] \<longrightarrow>
      len remove > 0)"
proof -
  let ?w' = "snd (UpdateResourceTags env api s resourceID create remove w)"
  note t = UpdateResourceTags_trace [of env api s resourceID create remove w]
  have i: "issued w ?w' = drop (length (calls w)) (calls ?w')" by (simp add: issued_def)
  show ?thesis
    unfolding i t by (auto split: option.splits)
qed

theorem UpdateResourceTags_calls_witness:
  "Some ''i-1'' \<noteq> None \<and> len (MakeMap [(''role'', ''node'')]) > 0 \<and> len NilMap = 0 \<and>
   issued (demo_world [])
     (snd (UpdateResourceTags demo_env demo_api demo_scope (Some ''i-1'')
             (MakeMap [(''role'', ''node'')]) NilMap (demo_world []))) =
     [CallCreateTags \<lparr>ti_Resources = [Some ''i-1''],
                      ti_Tags = [\<lparr>tag_Key = Some ''role'', tag_Value = Some ''node''\<rparr>]\<rparr>] \<and>
   filter isDeleteTags (issued (demo_world [])
     (snd (UpdateResourceTags demo_env demo_api demo_scope (Some ''i-1'')
             (MakeMap [(''role'', ''node'')]) (MakeMap [(''old'', ''x'')]) (demo_world [])))) \<noteq> [] \<and>
   len (MakeMap [(''old'', ''x'')]) > 0"
proof -
  have d: "filter isDeleteTags (issued (demo_world [])
     (snd (UpdateResourceTags demo_env demo_api demo_scope (Some ''i-1'')
             (MakeMap [(''role'', ''node'')]) (MakeMap [(''old'', ''x'')]) (demo_world [])))) \<noteq> []"
    by (simp add: UpdateResourceTags_def changing_def log_def issued_def len_def
        demo_api_def demo_world_def demo_env_def)
  show ?thesis
    using d
      UpdateResourceTags_calls [of demo_env demo_api demo_scope "Some ''i-1''"
        "MakeMap [(''role'', ''node'')]" NilMap "demo_world []"]
      UpdateResourceTags_calls [of demo_env demo_api demo_scope "Some ''i-1''"
        "MakeMap [(''role'', ''node'')]" "MakeMap [(''old'', ''x'')]" "demo_world []"]
    by (simp add: len_def demo_env_def)
qed

lemma runInstance_calls:
  "calls (snd (runInstance env api s role i w)) =
     calls w @ CallRunInstances (runInstance_input s i) #
       (case fst (RunInstances api (runInstance_input s i) (backend w)) of
          Inl err \<Rightarrow> []
        | Inr out \<Rightarrow>
            (case res_Instances out of
               [] \<Rightarrow> []
             | inst # others \<Rightarrow>
                 [CallWaitUntilInstanceRunning
                    \<lparr>dii_InstanceIds = [sdk_InstanceId inst], dii_Filters = []\<rparr>]))"
  by (auto simp add: runInstance_def changing_def log_def Let_def
      split: prod.splits sum.splits list.splits)

lemma runInstance_issued:
  "calls (snd (runInstance env api s role i w)) =
     calls w @ issued w (snd (runInstance env api s role i w)) \<and>
   filter isRunInstances (issued w (snd (runInstance env api s role i w))) =
     [CallRunInstances (runInstance_input s i)]"
  unfolding issued_def runInstance_calls
  by (simp split: sum.splits list.splits)

lemma runInstance_input_fields:
  "rii_SubnetId (runInstance_input s i) =
     (if inst_NetworkInterfaces i = [] then Some (inst_SubnetID i) else None)"
  "rii_SecurityGroupIds (runInstance_input s i) =
     (if inst_NetworkInterfaces i = [] then map Some (inst_SecurityGroupIDs i) else [])"
  "rii_NetworkInterfaces (runInstance_input s i) = inst_NetworkInterfaces i"
  by (simp_all add: runInstance_input_def Let_def map_idI)

text \<open>
  C3. The request \<open>runInstance\<close> sends (the one run call of its run) has the flat subnet
  id exactly when the descriptor has no network interface, flat security groups exactly
  when moreover the descriptor has security group ids, and network interfaces exactly
  when the descriptor has some: never the flat pair together with an interface list.
\<close>

theorem runInstance_exclusive:
  "calls (snd (runInstance env api s role i w)) =
     calls w @ issued w (snd (runInstance env api s role i w)) \<and>
   filter isRunInstances (issued w (snd (runInstance env api s role i w))) =
     [CallRunInstances (runInstance_input s i)] \<and>
   (rii_SubnetId (runInstance_input s i) \<noteq> None) = (inst_NetworkInterfaces i = []) \<and>
   (rii_SecurityGroupIds (runInstance_input s i) \<noteq> []) =
     (inst_NetworkInterfaces i = [] \<and> inst_SecurityGroupIDs i \<noteq> []) \<and>
   (rii_NetworkInterfaces (runInstance_input s i) \<noteq> []) = (inst_NetworkInterfaces i \<noteq> []) \<and>
   \<not> ((rii_SubnetId (runInstance_input s i) \<noteq> None \<or>
        rii_SecurityGroupIds (runInstance_input s i) \<noteq> []) \<and>
       rii_NetworkInterfaces (runInstance_input s i) \<noteq> [])"
  using runInstance_issued [of env api s role i w]
  by (simp add: runInstance_input_fields)

theorem runInstance_exclusive_witness:
  "rii_SubnetId (runInstance_input demo_scope demo_instance) = Some ''sn-1'' \<and>
   rii_SecurityGroupIds (runInstance_input demo_scope demo_instance) = [Some ''sg-node''] \<and>
   rii_NetworkInterfaces (runInstance_input demo_scope demo_instance) = [] \<and>
   rii_SubnetId (runInstance_input demo_scope
      (demo_instance\<lparr>inst_NetworkInterfaces := [demo_interface]\<rparr>)) = None \<and>
   rii_SecurityGroupIds (runInstance_input demo_scope
      (demo_instance\<lparr>inst_NetworkInterfaces := [demo_interface]\<rparr>)) = [] \<and>
   rii_NetworkInterfaces (runInstance_input demo_scope
      (demo_instance\<lparr>inst_NetworkInterfaces := [demo_interface]\<rparr>)) = [demo_interface] \<and>
   calls (snd (runInstance demo_env demo_api demo_scope ''node''
      (demo_instance\<lparr>inst_NetworkInterfaces := [demo_interface]\<rparr>) (demo_world []))) =
     [CallRunInstances (runInstance_input demo_scope
        (demo_instance\<lparr>inst_NetworkInterfaces := [demo_interface]\<rparr>)),
      CallWaitUntilInstanceRunning \<lparr>dii_InstanceIds = [Some ''i-1''], dii_Filters = []\<rparr>]"
proof -
  have a: "rii_SubnetId (runInstance_input demo_scope demo_instance) = Some ''sn-1''"
    "rii_SecurityGroupIds (runInstance_input demo_scope demo_instance) = [Some ''sg-node'']"
    "rii_SubnetId (runInstance_input demo_scope
      (demo_instance\<lparr>inst_NetworkInterfaces := [demo_interface]\<rparr>)) = None"
    "rii_NetworkInterfaces (runInstance_input demo_scope
      (demo_instance\<lparr>inst_NetworkInterfaces := [demo_interface]\<rparr>)) = [demo_interface]"
    by (simp_all add: runInstance_input_def Let_def demo_instance_def demo_interface_def)
  have c: "calls (snd (runInstance demo_env demo_api demo_scope ''node''
      (demo_instance\<lparr>inst_NetworkInterfaces := [demo_interface]\<rparr>) (demo_world []))) =
     [CallRunInstances (runInstance_input demo_scope
        (demo_instance\<lparr>inst_NetworkInterfaces := [demo_interface]\<rparr>)),
      CallWaitUntilInstanceRunning \<lparr>dii_InstanceIds = [Some ''i-1''], dii_Filters = []\<rparr>]"
    by (simp add: runInstance_def changing_def log_def Let_def demo_api_def demo_world_def)
  show ?thesis
    using a c runInstance_exclusive [of demo_env demo_api demo_scope "''node''" demo_instance "demo_world []"]
      runInstance_exclusive [of demo_env demo_api demo_scope "''node''"
        "demo_instance\<lparr>inst_NetworkInterfaces := [demo_interface]\<rparr>" "demo_world []"]
    by (simp add: demo_instance_def)
qed

lemma runInstance_result:
  "fst (runInstance env api s role i w) =
     (case fst (RunInstances api (runInstance_input s i) (backend w)) of
        Inl err \<Rightarrow> Inl (Wrapf err ''failed to run instance: %v'' [ArgInstance i])
      | Inr out \<Rightarrow>
          (case res_Instances out of
             [] \<Rightarrow> Inl (Errorf ''no instance returned for reservation %v'' [ArgReservation out])
           | inst # others \<Rightarrow> Inr (SDKToInstance env inst)))"
  by (auto simp add: runInstance_def changing_def log_def Let_def
      split: prod.splits sum.splits list.splits)

text \<open>
  C7, at a backend whose create call returns the instance \<open>i-1\<close> and whose wait for
  the running state fails: \<open>runInstance\<close> issues the wait, drops its error and returns
  the instance, although the backend has not reported it as running.
\<close>

theorem runInstance_drops_wait_error:
  "RunInstances faulty_api (runInstance_input demo_scope demo_instance) [] =
     (Inr \<lparr>res_Instances = [\<lparr>sdk_InstanceId = Some ''i-1'', sdk_State = ''pending''\<rparr>]\<rparr>,
      [\<lparr>sdk_InstanceId = Some ''i-1'', sdk_State = ''pending''\<rparr>]) \<and>
   WaitUntilInstanceRunning faulty_api \<lparr>dii_InstanceIds = [Some ''i-1''], dii_Filters = []\<rparr>
     [\<lparr>sdk_InstanceId = Some ''i-1'', sdk_State = ''pending''\<rparr>] =
     (Some (AWSError ''ResourceNotReady''),
      [\<lparr>sdk_InstanceId = Some ''i-1'', sdk_State = ''pending''\<rparr>]) \<and>
   calls (snd (runInstance demo_env faulty_api demo_scope ''node'' demo_instance (demo_world []))) =
     [CallRunInstances (runInstance_input demo_scope demo_instance),
      CallWaitUntilInstanceRunning \<lparr>dii_InstanceIds = [Some ''i-1''], dii_Filters = []\<rparr>] \<and>
   fst (runInstance demo_env faulty_api demo_scope ''node'' demo_instance (demo_world [])) =
     Inr (SDKToInstance demo_env \<lparr>sdk_InstanceId = Some ''i-1'', sdk_State = ''pending''\<rparr>)"
  by (simp add: runInstance_def changing_def log_def Let_def faulty_api_def demo_api_def
      demo_world_def)

text \<open>A run that only reads: the backend and the events stay, the calls added are no run calls.\<close>

lemma pickImage_quiet:
  "pickImage api machine w = (r, w') \<Longrightarrow>
   backend w' = backend w \<and> events w' = events w \<and>
   (\<exists>cs. calls w' = calls w @ cs \<and> filter isChanging cs = [])"
  by (auto simp: pickImage_def reading_def log_def split: option.splits)

lemma subnetByFilters_quiet:
  "subnetByFilters api machine subnet w = (r, w') \<Longrightarrow>
   backend w' = backend w \<and> events w' = events w \<and>
   (\<exists>cs. calls w' = calls w @ cs \<and> filter isChanging cs = [])"
  by (auto simp: subnetByFilters_def reading_def log_def Let_def
      split: option.splits if_splits sum.splits list.splits prod.splits)

lemma pickSubnet_quiet:
  "pickSubnet api s machine w = (r, w') \<Longrightarrow>
   backend w' = backend w \<and> events w' = events w \<and>
   (\<exists>cs. calls w' = calls w @ cs \<and> filter isChanging cs = [])"
  by (auto simp: pickSubnet_def 
      split: option.splits sum.splits list.splits prod.splits outcome.splits
      dest!: subnetByFilters_quiet)

lemma applyNode_quiet:
  "applyNode env api s machine tok ni input w = (r, w') \<Longrightarrow>
   backend w' = backend w \<and> events w' = events w \<and>
   (\<exists>cs. calls w' = calls w @ cs \<and> filter isChanging cs = [])"
  by (auto simp: applyNode_def reading_def log_def Let_def
      split: option.splits if_splits sum.splits list.splits prod.splits outcome.splits)



lemma no_changing_no_run:
  "filter isChanging cs = [] \<Longrightarrow> filter isRunInstances cs = []"
proof -
  have "isRunInstances c \<Longrightarrow> isChanging c" for c by (cases c) simp_all
  then show "filter isChanging cs = [] \<Longrightarrow> filter isRunInstances cs = []"
    by (auto simp: filter_empty_conv)
qed

lemma quiet_trans:
  assumes "backend w1 = backend w \<and> events w1 = events w \<and>
           (\<exists>cs. calls w1 = calls w @ cs \<and> filter isChanging cs = [])"
    and "backend w2 = backend w1 \<and> events w2 = events w1 \<and>
           (\<exists>cs. calls w2 = calls w1 @ cs \<and> filter isChanging cs = [])"
  shows "backend w2 = backend w \<and> events w2 = events w \<and>
           (\<exists>cs. calls w2 = calls w @ cs \<and> filter isChanging cs = [])"
  using assms by auto








lemma subnetByFilters_none_found:
  assumes az: "mc_Placement_AvailabilityZone machine \<noteq> '''' \<longrightarrow>
       DescribeAvailabilityZones api [Some (mc_Placement_AvailabilityZone machine)] (backend w) = None"
    and ds: "DescribeSubnets api
       (buildEC2Filters
          ((if mc_Placement_AvailabilityZone machine \<noteq> ''''
            then [\<lparr>f_Name = ''availabilityZone'',
                   f_Values = [mc_Placement_AvailabilityZone machine]\<rparr>]
            else []) @ ref_Filters subnet)) (backend w) = Inr []"
  shows "fst (subnetByFilters api machine subnet w) = Returns (Inr '''')"
  using az ds
  by (auto simp: subnetByFilters_def reading_def log_def Let_def split: prod.splits option.splits)

lemma pickSubnet_none_found:
  assumes sub: "mc_Subnet machine = Some subnet" and noid: "ref_ID subnet = None"
    and az: "mc_Placement_AvailabilityZone machine \<noteq> '''' \<longrightarrow>
       DescribeAvailabilityZones api [Some (mc_Placement_AvailabilityZone machine)] (backend w) = None"
    and ds: "DescribeSubnets api
       (buildEC2Filters
          ((if mc_Placement_AvailabilityZone machine \<noteq> ''''
            then [\<lparr>f_Name = ''availabilityZone'',
                   f_Values = [mc_Placement_AvailabilityZone machine]\<rparr>]
            else []) @ ref_Filters subnet)) (backend w) = Inr []"
  shows "fst (pickSubnet api s machine w) =
     Returns (Inr (\<lparr>ni_Groups = [], ni_DeviceIndex = Some (mc_DeviceIndex machine),
                     ni_AssociatePublicIpAddress = mc_PublicIP machine,
                     ni_SubnetId = Some ''''\<rparr>, ''''))"
proof -
  obtain w1 where "subnetByFilters api machine subnet w = (Returns (Inr ''''), w1)"
    using subnetByFilters_none_found [OF az ds]
    by (cases "subnetByFilters api machine subnet w") auto
  then show ?thesis by (simp add: pickSubnet_def sub noid)
qed

lemma applyNode_node:
  assumes "ms_Role machine = ''node''" "scope_Scope_Cluster s \<noteq> None"
    "scope_Scope_SecurityGroups s SecurityGroupNode = Some sg"
    "scope_ClusterConfig s = Some cc"
    "GenerateCertificateHash env (cc_CACertificate cc) = Inr h"
    "scope_Network s = Some net"
    "NewNode env \<lparr>ndi_CACertHash = h, ndi_BootstrapToken = tok,
                   ndi_ELBAddress = net_APIServerELB_DNSName net\<rparr> = Inr ud"
  shows "\<exists>input'. applyNode env api s machine tok ni input w = (Returns (Inr input'), w) \<and>
           map ni_SubnetId (inst_NetworkInterfaces input') = [ni_SubnetId ni]"
  using assms by (auto simp: applyNode_def Let_def)

lemma applyControlPlane_node:
  "ms_Role machine = ''node'' \<Longrightarrow> applyControlPlane env s machine input = Returns (Inr input)"
  by (simp add: applyControlPlane_def)

lemma pickKey_interfaces [simp]:
  "inst_NetworkInterfaces (pickKey machine input) = inst_NetworkInterfaces input"
  "inst_SubnetID (pickKey machine input) = inst_SubnetID input"
  by (simp_all add: pickKey_def)

lemma runAndRecord_calls:
  "calls (snd (runAndRecord env api s machine input w)) =
     calls (snd (runInstance env api s (ms_Role machine) input w))"
  by (auto simp: runAndRecord_def split: prod.splits sum.splits)

lemma runAndRecord_issued:
  "calls (snd (runAndRecord env api s machine input w)) =
     calls w @ issued w (snd (runAndRecord env api s machine input w)) \<and>
   filter isRunInstances (issued w (snd (runAndRecord env api s machine input w))) =
     [CallRunInstances (runInstance_input s input)]"
  using runInstance_issued [of env api s "ms_Role machine" input w]
  by (simp add: issued_def runAndRecord_calls)

lemma issued_trans:
  assumes "calls w1 = calls w @ cs" and "calls w2 = calls w1 @ issued w1 w2"
  shows "calls w2 = calls w @ issued w w2" and "issued w w2 = cs @ issued w1 w2"
proof -
  define r where "r = issued w1 w2"
  have c: "calls w2 = calls w @ cs @ r" using assms by (simp add: r_def)
  have i: "issued w w2 = cs @ r" by (simp add: issued_def c)
  show "calls w2 = calls w @ issued w w2" using c i by simp
  show "issued w w2 = cs @ issued w1 w2" using i by (simp add: r_def)
qed

lemma applyControlPlane_keeps:
  "applyControlPlane env s machine input = Returns (Inr input1) \<Longrightarrow>
   inst_NetworkInterfaces input1 = inst_NetworkInterfaces input \<and>
   inst_SubnetID input1 = inst_SubnetID input"
  by (auto simp: applyControlPlane_def split: if_splits option.splits list.splits sum.splits)

lemma applyNode_shape:
  "applyNode env api s machine tok ni input w = (Returns (Inr input2), w3) \<Longrightarrow>
   (ms_Role machine = ''node'' \<longrightarrow>
      map ni_SubnetId (inst_NetworkInterfaces input2) = [ni_SubnetId ni]) \<and>
   (ms_Role machine \<noteq> ''node'' \<longrightarrow> input2 = input \<and> w3 = w)"
  by (auto simp: applyNode_def reading_def log_def Let_def
      split: if_splits option.splits sum.splits outcome.splits prod.splits)

lemma applyNode_other:
  "ms_Role machine \<noteq> ''node'' \<Longrightarrow>
   applyNode env api s machine tok ni input w = (Returns (Inr input), w)"
  by (simp add: applyNode_def)

lemma applyControlPlane_other:
  "ms_Role machine \<noteq> ''controlplane'' \<Longrightarrow>
   applyControlPlane env s machine input = Returns (Inr input)"
  by (simp add: applyControlPlane_def)

lemma applyControlPlane_controlplane:
  assumes "ms_Role machine = ''controlplane''"
    "scope_Scope_SecurityGroups s SecurityGroupControlPlane = Some sg"
    "scope_ClusterConfig s = Some cc" "cc_CAPrivateKey cc \<noteq> ''''"
    "scope_Network s = Some net" "scope_Cluster s = Some cluster"
    "cl_Pods_CIDRBlocks cluster = pods # ps" "cl_Services_CIDRBlocks cluster = services # ss"
    "NewControlPlane env
       \<lparr>cpi_CACert = cc_CACertificate cc, cpi_CAKey = cc_CAPrivateKey cc,
        cpi_ELBAddress = net_APIServerELB_DNSName net, cpi_ClusterName = scope_Name s,
        cpi_PodSubnet = pods, cpi_ServiceSubnet = services,
        cpi_ServiceDomain = cl_ServiceDomain cluster,
        cpi_KubernetesVersion = ms_Versions_ControlPlane machine\<rparr> = Inr ud"
  shows "applyControlPlane env s machine input =
     Returns (Inr (input\<lparr>inst_UserData := Some ud,
                         inst_SecurityGroupIDs := inst_SecurityGroupIDs input @ [sg_ID sg]\<rparr>))"
  using assms by (simp add: applyControlPlane_def)

lemma createInstance_after_subnet:
  assumes iam: "pickIAMProfile machine = Returns p"
    and tg: "buildTags env s machine = Returns t"
    and img: "pickImage api machine w = (Inr img, w1)"
    and ps: "pickSubnet api s machine w1 = (Returns (Inr (ni, sid)), w2)"
  shows "createInstance env api s machine tok w =
     (case checkDependencies s of
        Some err \<Rightarrow> (Returns (None, Some err), w2)
      | None \<Rightarrow>
     (case applyControlPlane env s machine
             \<lparr>inst_ID = '''', inst_Type = mc_InstanceType machine, inst_ImageID = img,
              inst_IAMProfile = p, inst_SubnetID = sid, inst_KeyName = None,
              inst_EBSOptimized = None, inst_UserData = None, inst_SecurityGroupIDs = [],
              inst_NetworkInterfaces = [], inst_Tags = t\<rparr> of
        Panics \<Rightarrow> (Panics, w2)
      | Returns (Inl r) \<Rightarrow> (Returns r, w2)
      | Returns (Inr input) \<Rightarrow>
     (case applyNode env api s machine tok ni input w2 of
        (Panics, w3) \<Rightarrow> (Panics, w3)
      | (Returns (Inl r), w3) \<Rightarrow> (Returns r, w3)
      | (Returns (Inr input), w3) \<Rightarrow>
          runAndRecord env api s machine (pickKey machine input) w3)))"
  by (cases "checkDependencies s") (simp_all add: createInstance_def iam tg img ps)

lemma createInstance_reaches_run:
  assumes iam: "pickIAMProfile machine = Returns p"
    and tg: "buildTags env s machine = Returns t"
    and img: "pickImage api machine w = (Inr img, w1)"
    and ps: "pickSubnet api s machine w1 = (Returns (Inr (ni, sid)), w2)"
    and cd: "checkDependencies s = None"
    and cp: "applyControlPlane env s machine
             \<lparr>inst_ID = '''', inst_Type = mc_InstanceType machine, inst_ImageID = img,
              inst_IAMProfile = p, inst_SubnetID = sid, inst_KeyName = None,
              inst_EBSOptimized = None, inst_UserData = None, inst_SecurityGroupIDs = [],
              inst_NetworkInterfaces = [], inst_Tags = t\<rparr> = Returns (Inr input1)"
    and an: "fst (applyNode env api s machine tok ni input1 w2) = Returns (Inr input2)"
  shows "calls (snd (createInstance env api s machine tok w)) =
           calls w @ issued w (snd (createInstance env api s machine tok w))"
    and "filter isRunInstances (issued w (snd (createInstance env api s machine tok w))) =
           [CallRunInstances (runInstance_input s (pickKey machine input2))]"
    and "ms_Role machine = ''node'' \<Longrightarrow>
           map ni_SubnetId (rii_NetworkInterfaces (runInstance_input s (pickKey machine input2))) =
             [ni_SubnetId ni] \<and>
           rii_SubnetId (runInstance_input s (pickKey machine input2)) = None"
    and "ms_Role machine \<noteq> ''node'' \<Longrightarrow>
           rii_NetworkInterfaces (runInstance_input s (pickKey machine input2)) = [] \<and>
           rii_SubnetId (runInstance_input s (pickKey machine input2)) = Some sid"
proof -
  obtain w3 where an': "applyNode env api s machine tok ni input1 w2 = (Returns (Inr input2), w3)"
    using an by (cases "applyNode env api s machine tok ni input1 w2") auto
  note q = quiet_trans [OF quiet_trans [OF pickImage_quiet [OF img] pickSubnet_quiet [OF ps]]
      applyNode_quiet [OF an']]
  then obtain cs where cs0: "calls w3 = calls w @ cs" "filter isChanging cs = []" by blast
  note cs = cs0(1) no_changing_no_run [OF cs0(2)]
  have ci: "createInstance env api s machine tok w =
      runAndRecord env api s machine (pickKey machine input2) w3"
    by (simp add: createInstance_after_subnet [OF iam tg img ps] cd cp an')
  note rr = runAndRecord_issued [of env api s machine "pickKey machine input2" w3]
  note it = issued_trans [OF cs(1) rr [THEN conjunct1]]
  show "calls (snd (createInstance env api s machine tok w)) =
           calls w @ issued w (snd (createInstance env api s machine tok w))"
    unfolding ci by (rule it(1))
  show "filter isRunInstances (issued w (snd (createInstance env api s machine tok w))) =
           [CallRunInstances (runInstance_input s (pickKey machine input2))]"
    unfolding ci it(2) using rr cs(2) by simp
  note k = applyControlPlane_keeps [OF cp]
  note sh = applyNode_shape [OF an']
  show "map ni_SubnetId (rii_NetworkInterfaces (runInstance_input s (pickKey machine input2))) =
             [ni_SubnetId ni] \<and>
           rii_SubnetId (runInstance_input s (pickKey machine input2)) = None"
    if "ms_Role machine = ''node''"
  proof -
    from sh that have m: "map ni_SubnetId (inst_NetworkInterfaces input2) = [ni_SubnetId ni]"
      by simp
    then have "inst_NetworkInterfaces input2 \<noteq> []" by auto
    with m show ?thesis by (simp add: runInstance_input_fields)
  qed
  show "rii_NetworkInterfaces (runInstance_input s (pickKey machine input2)) = [] \<and>
           rii_SubnetId (runInstance_input s (pickKey machine input2)) = Some sid"
    if "ms_Role machine \<noteq> ''node''"
    using sh that k by (simp add: runInstance_input_fields)
qed

text \<open>
  C10. For a machine of any role with subnet filters and no subnet id, in a run that
  reaches the placement step (the IAM profile, the tags and the image are there), when
  the describe-subnets call succeeds with no subnet, the placement step inside
  \<open>createInstance\<close> returns no error but a network interface whose subnet id is the
  empty string, and \<open>createInstance\<close> goes on: its outcome is that of the steps after the
  placement (a failed dependency check, a role block that ends the run), and when these
  go through it issues its one run call, whose request carries the empty subnet id in
  the interface on a node machine and as the flat subnet id on any other. For a role
  that is neither control plane nor node this needs only the dependency checks to pass;
  for a control-plane and for a node machine it is stated for the dependencies of their
  block being there.
\<close>

theorem createInstance_no_matching_subnet:
  assumes sub: "mc_Subnet machine = Some subnet" and noid: "ref_ID subnet = None"
    and az: "mc_Placement_AvailabilityZone machine \<noteq> '''' \<longrightarrow>
       DescribeAvailabilityZones api [Some (mc_Placement_AvailabilityZone machine)] (backend w) = None"
    and ds: "DescribeSubnets api
       (buildEC2Filters
          ((if mc_Placement_AvailabilityZone machine \<noteq> ''''
            then [\<lparr>f_Name = ''availabilityZone'',
                   f_Values = [mc_Placement_AvailabilityZone machine]\<rparr>]
            else []) @ ref_Filters subnet)) (backend w) = Inr []"
    and iam: "pickIAMProfile machine = Returns p"
    and tg: "buildTags env s machine = Returns t"
    and img: "fst (pickImage api machine w) = Inr img"
    and ni: "ni = \<lparr>ni_Groups = [], ni_DeviceIndex = Some (mc_DeviceIndex machine),
                   ni_AssociatePublicIpAddress = mc_PublicIP machine, ni_SubnetId = Some ''''\<rparr>"
    and input: "input = \<lparr>inst_ID = '''', inst_Type = mc_InstanceType machine, inst_ImageID = img,
                         inst_IAMProfile = p, inst_SubnetID = '''', inst_KeyName = None,
                         inst_EBSOptimized = None, inst_UserData = None,
                         inst_SecurityGroupIDs = [], inst_NetworkInterfaces = [],
                         inst_Tags = t\<rparr>"
    and w2: "w2 = snd (pickSubnet api s machine (snd (pickImage api machine w)))"
  shows "fst (pickSubnet api s machine (snd (pickImage api machine w))) = Returns (Inr (ni, '''')) \<and>
         backend w2 = backend w \<and>
         (checkDependencies s = Some e \<longrightarrow>
            createInstance env api s machine tok w = (Returns (None, Some e), w2)) \<and>
         (checkDependencies s = None \<and> applyControlPlane env s machine input = Panics \<longrightarrow>
            createInstance env api s machine tok w = (Panics, w2)) \<and>
         (checkDependencies s = None \<and> applyControlPlane env s machine input = Returns (Inl r) \<longrightarrow>
            createInstance env api s machine tok w = (Returns r, w2)) \<and>
         (checkDependencies s = None \<and>
          applyControlPlane env s machine input = Returns (Inr input1) \<and>
          fst (applyNode env api s machine tok ni input1 w2) = Panics \<longrightarrow>
            fst (createInstance env api s machine tok w) = Panics) \<and>
         (checkDependencies s = None \<and>
          applyControlPlane env s machine input = Returns (Inr input1) \<and>
          fst (applyNode env api s machine tok ni input1 w2) = Returns (Inl r) \<longrightarrow>
            fst (createInstance env api s machine tok w) = Returns r) \<and>
         (checkDependencies s = None \<and>
          applyControlPlane env s machine input = Returns (Inr input1) \<and>
          fst (applyNode env api s machine tok ni input1 w2) = Returns (Inr input2) \<longrightarrow>
            calls (snd (createInstance env api s machine tok w)) =
              calls w @ issued w (snd (createInstance env api s machine tok w)) \<and>
            filter isRunInstances (issued w (snd (createInstance env api s machine tok w))) =
              [CallRunInstances (runInstance_input s (pickKey machine input2))] \<and>
            (ms_Role machine = ''node'' \<longrightarrow>
               map ni_SubnetId
                 (rii_NetworkInterfaces (runInstance_input s (pickKey machine input2))) = [Some ''''] \<and>
               rii_SubnetId (runInstance_input s (pickKey machine input2)) = None) \<and>
            (ms_Role machine \<noteq> ''node'' \<longrightarrow>
               rii_NetworkInterfaces (runInstance_input s (pickKey machine input2)) = [] \<and>
               rii_SubnetId (runInstance_input s (pickKey machine input2)) = Some '''')) \<and>
         (ms_Role machine \<noteq> ''controlplane'' \<and> ms_Role machine \<noteq> ''node'' \<and>
          checkDependencies s = None \<longrightarrow>
            (\<exists>req. filter isRunInstances
                      (issued w (snd (createInstance env api s machine tok w))) =
                      [CallRunInstances req] \<and>
                   rii_NetworkInterfaces req = [] \<and> rii_SubnetId req = Some '''')) \<and>
         (ms_Role machine = ''controlplane'' \<and> checkDependencies s = None \<and>
          scope_Scope_SecurityGroups s SecurityGroupControlPlane = Some sg \<and>
          scope_ClusterConfig s = Some cc \<and> cc_CAPrivateKey cc \<noteq> '''' \<and>
          scope_Network s = Some net \<and> scope_Cluster s = Some cluster \<and>
          cl_Pods_CIDRBlocks cluster = pods # ps \<and>
          cl_Services_CIDRBlocks cluster = services # ss \<and>
          NewControlPlane env
            \<lparr>cpi_CACert = cc_CACertificate cc, cpi_CAKey = cc_CAPrivateKey cc,
             cpi_ELBAddress = net_APIServerELB_DNSName net, cpi_ClusterName = scope_Name s,
             cpi_PodSubnet = pods, cpi_ServiceSubnet = services,
             cpi_ServiceDomain = cl_ServiceDomain cluster,
             cpi_KubernetesVersion = ms_Versions_ControlPlane machine\<rparr> = Inr ud \<longrightarrow>
            (\<exists>req. filter isRunInstances
                      (issued w (snd (createInstance env api s machine tok w))) =
                      [CallRunInstances req] \<and>
                   rii_NetworkInterfaces req = [] \<and> rii_SubnetId req = Some '''')) \<and>
         (ms_Role machine = ''node'' \<and> checkDependencies s = None \<and>
          scope_Scope_Cluster s \<noteq> None \<and>
          scope_Scope_SecurityGroups s SecurityGroupNode = Some sg \<and>
          scope_ClusterConfig s = Some cc \<and>
          GenerateCertificateHash env (cc_CACertificate cc) = Inr h \<and>
          scope_Network s = Some net \<and>
          NewNode env \<lparr>ndi_CACertHash = h, ndi_BootstrapToken = tok,
                        ndi_ELBAddress = net_APIServerELB_DNSName net\<rparr> = Inr ud \<longrightarrow>
            (\<exists>req. filter isRunInstances
                      (issued w (snd (createInstance env api s machine tok w))) =
                      [CallRunInstances req] \<and>
                   map ni_SubnetId (rii_NetworkInterfaces req) = [Some ''''] \<and>
                   rii_SubnetId req = None))"
proof -
  let ?R = "createInstance env api s machine tok w"
  obtain w1 where im: "pickImage api machine w = (Inr img, w1)"
    using img by (cases "pickImage api machine w") auto
  note q1 = pickImage_quiet [OF im]
  from q1 have b1: "backend w1 = backend w" by simp
  have pf: "fst (pickSubnet api s machine w1) = Returns (Inr (ni, ''''))"
    using pickSubnet_none_found [OF sub noid, of api w1 s] az ds unfolding b1 ni by simp
  have w2': "w2 = snd (pickSubnet api s machine w1)" by (simp add: w2 im)
  have ps: "pickSubnet api s machine w1 = (Returns (Inr (ni, '''')), w2)"
    using pf w2' by (cases "pickSubnet api s machine w1") auto
  note q2 = quiet_trans [OF q1 pickSubnet_quiet [OF ps]]
  note cas = createInstance_after_subnet [OF iam tg im ps, where tok = tok, folded input]
  note run = createInstance_reaches_run [OF iam tg im ps, where tok = tok, folded input]
  have c1: "fst (pickSubnet api s machine (snd (pickImage api machine w))) =
      Returns (Inr (ni, ''''))" by (simp add: im pf)
  have c2: "backend w2 = backend w" using q2 by simp
  have c3: "checkDependencies s = Some e \<longrightarrow> ?R = (Returns (None, Some e), w2)"
    by (simp add: cas)
  have c4: "checkDependencies s = None \<and> applyControlPlane env s machine input = Panics \<longrightarrow>
            ?R = (Panics, w2)"
    by (simp add: cas)
  have c5: "checkDependencies s = None \<and> applyControlPlane env s machine input = Returns (Inl r) \<longrightarrow>
            ?R = (Returns r, w2)"
    by (simp add: cas)
  have c6: "checkDependencies s = None \<and>
          applyControlPlane env s machine input = Returns (Inr input1) \<and>
          fst (applyNode env api s machine tok ni input1 w2) = Panics \<longrightarrow> fst ?R = Panics"
    by (cases "applyNode env api s machine tok ni input1 w2") (auto simp add: cas)
  have c7: "checkDependencies s = None \<and>
          applyControlPlane env s machine input = Returns (Inr input1) \<and>
          fst (applyNode env api s machine tok ni input1 w2) = Returns (Inl r) \<longrightarrow>
            fst ?R = Returns r"
    by (cases "applyNode env api s machine tok ni input1 w2") (auto simp add: cas)
  have gen: "calls (snd ?R) = calls w @ issued w (snd ?R) \<and>
            filter isRunInstances (issued w (snd ?R)) =
              [CallRunInstances (runInstance_input s (pickKey machine input2))] \<and>
            (ms_Role machine = ''node'' \<longrightarrow>
               map ni_SubnetId
                 (rii_NetworkInterfaces (runInstance_input s (pickKey machine input2))) = [Some ''''] \<and>
               rii_SubnetId (runInstance_input s (pickKey machine input2)) = None) \<and>
            (ms_Role machine \<noteq> ''node'' \<longrightarrow>
               rii_NetworkInterfaces (runInstance_input s (pickKey machine input2)) = [] \<and>
               rii_SubnetId (runInstance_input s (pickKey machine input2)) = Some '''')"
    if "checkDependencies s = None"
      "applyControlPlane env s machine input = Returns (Inr input1)"
      "fst (applyNode env api s machine tok ni input1 w2) = Returns (Inr input2)"
    for input1 input2
    using run [OF that] by (simp add: ni)
  have c8: "checkDependencies s = None \<and>
          applyControlPlane env s machine input = Returns (Inr input1) \<and>
          fst (applyNode env api s machine tok ni input1 w2) = Returns (Inr input2) \<longrightarrow>
            calls (snd ?R) = calls w @ issued w (snd ?R) \<and>
            filter isRunInstances (issued w (snd ?R)) =
              [CallRunInstances (runInstance_input s (pickKey machine input2))] \<and>
            (ms_Role machine = ''node'' \<longrightarrow>
               map ni_SubnetId
                 (rii_NetworkInterfaces (runInstance_input s (pickKey machine input2))) = [Some ''''] \<and>
               rii_SubnetId (runInstance_input s (pickKey machine input2)) = None) \<and>
            (ms_Role machine \<noteq> ''node'' \<longrightarrow>
               rii_NetworkInterfaces (runInstance_input s (pickKey machine input2)) = [] \<and>
               rii_SubnetId (runInstance_input s (pickKey machine input2)) = Some '''')"
    using gen by blast
  have c9: "ms_Role machine \<noteq> ''controlplane'' \<and> ms_Role machine \<noteq> ''node'' \<and>
          checkDependencies s = None \<longrightarrow>
            (\<exists>req. filter isRunInstances (issued w (snd ?R)) = [CallRunInstances req] \<and>
                   rii_NetworkInterfaces req = [] \<and> rii_SubnetId req = Some '''')"
  proof
    assume h: "ms_Role machine \<noteq> ''controlplane'' \<and> ms_Role machine \<noteq> ''node'' \<and>
          checkDependencies s = None"
    have a: "applyControlPlane env s machine input = Returns (Inr input)"
      using h by (simp add: applyControlPlane_other)
    have b: "fst (applyNode env api s machine tok ni input w2) = Returns (Inr input)"
      using h by (simp add: applyNode_other)
    from gen [OF _ a b] h
    show "\<exists>req. filter isRunInstances (issued w (snd ?R)) = [CallRunInstances req] \<and>
                   rii_NetworkInterfaces req = [] \<and> rii_SubnetId req = Some ''''"
      by auto
  qed
  have c10: "ms_Role machine = ''controlplane'' \<and> checkDependencies s = None \<and>
          scope_Scope_SecurityGroups s SecurityGroupControlPlane = Some sg \<and>
          scope_ClusterConfig s = Some cc \<and> cc_CAPrivateKey cc \<noteq> '''' \<and>
          scope_Network s = Some net \<and> scope_Cluster s = Some cluster \<and>
          cl_Pods_CIDRBlocks cluster = pods # ps \<and>
          cl_Services_CIDRBlocks cluster = services # ss \<and>
          NewControlPlane env
            \<lparr>cpi_CACert = cc_CACertificate cc, cpi_CAKey = cc_CAPrivateKey cc,
             cpi_ELBAddress = net_APIServerELB_DNSName net, cpi_ClusterName = scope_Name s,
             cpi_PodSubnet = pods, cpi_ServiceSubnet = services,
             cpi_ServiceDomain = cl_ServiceDomain cluster,
             cpi_KubernetesVersion = ms_Versions_ControlPlane machine\<rparr> = Inr ud \<longrightarrow>
            (\<exists>req. filter isRunInstances (issued w (snd ?R)) = [CallRunInstances req] \<and>
                   rii_NetworkInterfaces req = [] \<and> rii_SubnetId req = Some '''')"
  proof
    assume h: "ms_Role machine = ''controlplane'' \<and> checkDependencies s = None \<and>
          scope_Scope_SecurityGroups s SecurityGroupControlPlane = Some sg \<and>
          scope_ClusterConfig s = Some cc \<and> cc_CAPrivateKey cc \<noteq> '''' \<and>
          scope_Network s = Some net \<and> scope_Cluster s = Some cluster \<and>
          cl_Pods_CIDRBlocks cluster = pods # ps \<and>
          cl_Services_CIDRBlocks cluster = services # ss \<and>
          NewControlPlane env
            \<lparr>cpi_CACert = cc_CACertificate cc, cpi_CAKey = cc_CAPrivateKey cc,
             cpi_ELBAddress = net_APIServerELB_DNSName net, cpi_ClusterName = scope_Name s,
             cpi_PodSubnet = pods, cpi_ServiceSubnet = services,
             cpi_ServiceDomain = cl_ServiceDomain cluster,
             cpi_KubernetesVersion = ms_Versions_ControlPlane machine\<rparr> = Inr ud"
    let ?i1 = "input\<lparr>inst_UserData := Some ud,
                      inst_SecurityGroupIDs := inst_SecurityGroupIDs input @ [sg_ID sg]\<rparr>"
    have a: "applyControlPlane env s machine input = Returns (Inr ?i1)"
      by (rule applyControlPlane_controlplane
            [where pods = pods and ps = ps and services = services and ss = ss and cc = cc
              and net = net and cluster = cluster])
         (use h in simp_all)
    have nn: "ms_Role machine \<noteq> ''node''" using h by simp
    have b: "fst (applyNode env api s machine tok ni ?i1 w2) = Returns (Inr ?i1)"
      using nn by (simp add: applyNode_other)
    from gen [OF _ a b] h nn
    show "\<exists>req. filter isRunInstances (issued w (snd ?R)) = [CallRunInstances req] \<and>
                   rii_NetworkInterfaces req = [] \<and> rii_SubnetId req = Some ''''"
      by auto
  qed
  have c11: "ms_Role machine = ''node'' \<and> checkDependencies s = None \<and>
          scope_Scope_Cluster s \<noteq> None \<and>
          scope_Scope_SecurityGroups s SecurityGroupNode = Some sg \<and>
          scope_ClusterConfig s = Some cc \<and>
          GenerateCertificateHash env (cc_CACertificate cc) = Inr h \<and>
          scope_Network s = Some net \<and>
          NewNode env \<lparr>ndi_CACertHash = h, ndi_BootstrapToken = tok,
                        ndi_ELBAddress = net_APIServerELB_DNSName net\<rparr> = Inr ud \<longrightarrow>
            (\<exists>req. filter isRunInstances (issued w (snd ?R)) = [CallRunInstances req] \<and>
                   map ni_SubnetId (rii_NetworkInterfaces req) = [Some ''''] \<and>
                   rii_SubnetId req = None)"
  proof
    assume h: "ms_Role machine = ''node'' \<and> checkDependencies s = None \<and>
          scope_Scope_Cluster s \<noteq> None \<and>
          scope_Scope_SecurityGroups s SecurityGroupNode = Some sg \<and>
          scope_ClusterConfig s = Some cc \<and>
          GenerateCertificateHash env (cc_CACertificate cc) = Inr h \<and>
          scope_Network s = Some net \<and>
          NewNode env \<lparr>ndi_CACertHash = h, ndi_BootstrapToken = tok,
                        ndi_ELBAddress = net_APIServerELB_DNSName net\<rparr> = Inr ud"
    have a: "applyControlPlane env s machine input = Returns (Inr input)"
      using h by (simp add: applyControlPlane_node)
    obtain input' where "applyNode env api s machine tok ni input w2 = (Returns (Inr input'), w2)"
      using applyNode_node [of machine s sg cc env h net tok ud api ni input w2] h by auto
    then have b: "fst (applyNode env api s machine tok ni input w2) = Returns (Inr input')"
      by simp
    from gen [OF _ a b] h
    show "\<exists>req. filter isRunInstances (issued w (snd ?R)) = [CallRunInstances req] \<and>
                   map ni_SubnetId (rii_NetworkInterfaces req) = [Some ''''] \<and>
                   rii_SubnetId req = None"
      by auto
  qed
  from c1 c2 c3 c4 c5 c6 c7 c8 c9 c10 c11 show ?thesis by blast
qed

theorem createInstance_no_matching_subnet_witness:
  "mc_Subnet (filtered_machine ''node'') =
     Some \<lparr>ref_ID = None, ref_Filters = [\<lparr>f_Name = ''tag:Name'', f_Values = [''private'']\<rparr>]\<rparr> \<and>
   mc_Placement_AvailabilityZone (filtered_machine ''node'') = '''' \<and>
   DescribeSubnets demo_api
     (buildEC2Filters [\<lparr>f_Name = ''tag:Name'', f_Values = [''private'']\<rparr>]) [] = Inr [] \<and>
   pickIAMProfile (filtered_machine ''node'') = Returns ''profile'' \<and>
   fst (pickImage demo_api (filtered_machine ''node'') (demo_world [])) = Inr ''ami-1'' \<and>
   fst (pickSubnet demo_api demo_scope (filtered_machine ''node'')
          (snd (pickImage demo_api (filtered_machine ''node'') (demo_world [])))) =
     Returns (Inr (\<lparr>ni_Groups = [], ni_DeviceIndex = Some 0,
                     ni_AssociatePublicIpAddress = None, ni_SubnetId = Some ''''\<rparr>, '''')) \<and>
   checkDependencies demo_scope = None \<and>
   ms_Role (filtered_machine ''node'') = ''node'' \<and>
   (\<exists>req. filter isRunInstances
             (issued (demo_world [])
                (snd (createInstance demo_env demo_api demo_scope (filtered_machine ''node'')
                        ''token'' (demo_world [])))) = [CallRunInstances req] \<and>
          map ni_SubnetId (rii_NetworkInterfaces req) = [Some ''''] \<and>
          rii_SubnetId req = None) \<and>
   ms_Role (filtered_machine ''controlplane'') = ''controlplane'' \<and>
   (\<exists>req. filter isRunInstances
             (issued (demo_world [])
                (snd (createInstance demo_env demo_api demo_scope (filtered_machine ''controlplane'')
                        ''token'' (demo_world [])))) = [CallRunInstances req] \<and>
          rii_NetworkInterfaces req = [] \<and> rii_SubnetId req = Some '''') \<and>
   ms_Role (filtered_machine ''bastion'') = ''bastion'' \<and>
   (\<exists>req. filter isRunInstances
             (issued (demo_world [])
                (snd (createInstance demo_env demo_api demo_scope (filtered_machine ''bastion'')
                        ''token'' (demo_world [])))) = [CallRunInstances req] \<and>
          rii_NetworkInterfaces req = [] \<and> rii_SubnetId req = Some '''')"
proof -
  let ?sub = "\<lparr>ref_ID = None, ref_Filters = [\<lparr>f_Name = ''tag:Name'', f_Values = [''private'']\<rparr>]\<rparr>"
  let ?t = "MakeMap [(''Name'', ''m1''), (''clusterid'', ''c1-id''),
                     (''kubernetes.io/cluster/c1-id'', ''owned'')]"
  have sub: "mc_Subnet (filtered_machine role) = Some ?sub" for role
    by (simp add: filtered_machine_def)
  have noid: "ref_ID ?sub = None" by simp
  have z: "mc_Placement_AvailabilityZone (filtered_machine role) = ''''" for role
    by (simp add: filtered_machine_def demo_machine_def)
  have az: "mc_Placement_AvailabilityZone (filtered_machine role) \<noteq> '''' \<longrightarrow>
       DescribeAvailabilityZones demo_api [Some (mc_Placement_AvailabilityZone (filtered_machine role))]
         (backend (demo_world [])) = None" for role
    by (simp add: z)
  have ds0: "DescribeSubnets demo_api
     (buildEC2Filters [\<lparr>f_Name = ''tag:Name'', f_Values = [''private'']\<rparr>]) [] = Inr []"
    by (simp add: demo_api_def)
  have ds: "DescribeSubnets demo_api
       (buildEC2Filters
          ((if mc_Placement_AvailabilityZone (filtered_machine role) \<noteq> ''''
            then [\<lparr>f_Name = ''availabilityZone'',
                   f_Values = [mc_Placement_AvailabilityZone (filtered_machine role)]\<rparr>]
            else []) @ ref_Filters ?sub)) (backend (demo_world [])) = Inr []" for role
    by (simp add: demo_api_def)
  have role: "ms_Role (filtered_machine role) = role" for role
    by (simp add: filtered_machine_def)
  have p: "pickIAMProfile (filtered_machine role) = Returns ''profile''" for role
    by (simp add: pickIAMProfile_def filtered_machine_def demo_machine_def)
  have i: "fst (pickImage demo_api (filtered_machine role) (demo_world [])) = Inr ''ami-1''" for role
    by (simp add: pickImage_def filtered_machine_def demo_machine_def)
  have t: "buildTags demo_env demo_scope (filtered_machine role) = Returns ?t" for role
    by (simp add: buildTags_def demo_env_def filtered_machine_def demo_machine_def)
  have k: "checkDependencies demo_scope = None"
    by (simp add: checkDependencies_def demo_scope_def)
  have sc: "scope_Scope_Cluster demo_scope \<noteq> None"
    "scope_Scope_SecurityGroups demo_scope SecurityGroupNode = Some \<lparr>sg_ID = ''sg-node''\<rparr>"
    "scope_Scope_SecurityGroups demo_scope SecurityGroupControlPlane = Some \<lparr>sg_ID = ''sg-cp''\<rparr>"
    "scope_ClusterConfig demo_scope = Some \<lparr>cc_CACertificate = ''cert'', cc_CAPrivateKey = ''key''\<rparr>"
    "scope_Network demo_scope = Some \<lparr>net_APIServerELB_DNSName = ''elb.example''\<rparr>"
    "scope_Cluster demo_scope = Some \<lparr>cl_Pods_CIDRBlocks = [''10.0.0.0/16''],
                             cl_Services_CIDRBlocks = [''10.1.0.0/16''],
                             cl_ServiceDomain = ''cluster.local''\<rparr>"
    by (simp_all add: demo_scope_def)
  have g: "GenerateCertificateHash demo_env x = Inr ''sha256:0000''"
    "NewNode demo_env y = Inr ''node-userdata''"
    "NewControlPlane demo_env v = Inr ''controlplane-userdata''" for x y v
    by (simp_all add: demo_env_def)
  have d: "mc_DeviceIndex (filtered_machine role) = 0" "mc_PublicIP (filtered_machine role) = None"
    for role
    by (simp_all add: filtered_machine_def demo_machine_def)
  note thn = createInstance_no_matching_subnet
      [OF sub [of "''node''"] noid az [of "''node''"] ds [of "''node''"] p [of "''node''"] t [of "''node''"] i [of "''node''"]
          refl refl refl,
        where sg = "\<lparr>sg_ID = ''sg-node''\<rparr>" and h = "''sha256:0000''" and ud = "''node-userdata''"
          and tok = "''token''"
          and cc = "\<lparr>cc_CACertificate = ''cert'', cc_CAPrivateKey = ''key''\<rparr>"
          and net = "\<lparr>net_APIServerELB_DNSName = ''elb.example''\<rparr>"
          and cluster = "\<lparr>cl_Pods_CIDRBlocks = [''10.0.0.0/16''],
                             cl_Services_CIDRBlocks = [''10.1.0.0/16''],
                             cl_ServiceDomain = ''cluster.local''\<rparr>"
          and pods = "''10.0.0.0/16''" and ps = "[]"
          and services = "''10.1.0.0/16''" and ss = "[]"]
  note thc = createInstance_no_matching_subnet
      [OF sub [of "''controlplane''"] noid az [of "''controlplane''"] ds [of "''controlplane''"] p [of "''controlplane''"] t [of "''controlplane''"] i [of "''controlplane''"]
          refl refl refl,
        where sg = "\<lparr>sg_ID = ''sg-cp''\<rparr>" and ud = "''controlplane-userdata''"
          and tok = "''token''"
          and cc = "\<lparr>cc_CACertificate = ''cert'', cc_CAPrivateKey = ''key''\<rparr>"
          and net = "\<lparr>net_APIServerELB_DNSName = ''elb.example''\<rparr>"
          and cluster = "\<lparr>cl_Pods_CIDRBlocks = [''10.0.0.0/16''],
                             cl_Services_CIDRBlocks = [''10.1.0.0/16''],
                             cl_ServiceDomain = ''cluster.local''\<rparr>"
          and pods = "''10.0.0.0/16''" and ps = "[]"
          and services = "''10.1.0.0/16''" and ss = "[]"]
  note tho = createInstance_no_matching_subnet
      [OF sub [of "''bastion''"] noid az [of "''bastion''"] ds [of "''bastion''"] p [of "''bastion''"] t [of "''bastion''"] i [of "''bastion''"]
          refl refl refl,
        where e = e
          and tok = "''token''"
          and cc = "\<lparr>cc_CACertificate = ''cert'', cc_CAPrivateKey = ''key''\<rparr>"
          and net = "\<lparr>net_APIServerELB_DNSName = ''elb.example''\<rparr>"
          and cluster = "\<lparr>cl_Pods_CIDRBlocks = [''10.0.0.0/16''],
                             cl_Services_CIDRBlocks = [''10.1.0.0/16''],
                             cl_ServiceDomain = ''cluster.local''\<rparr>"
          and pods = "''10.0.0.0/16''" and ps = "[]"
          and services = "''10.1.0.0/16''" and ss = "[]"]
  from thn
  have one: "fst (pickSubnet demo_api demo_scope (filtered_machine ''node'')
          (snd (pickImage demo_api (filtered_machine ''node'') (demo_world [])))) =
     Returns (Inr (\<lparr>ni_Groups = [], ni_DeviceIndex = Some 0,
                     ni_AssociatePublicIpAddress = None, ni_SubnetId = Some ''''\<rparr>, ''''))"
    by (simp add: d)
  from thn role k sc g
  have node: "\<exists>req. filter isRunInstances
             (issued (demo_world [])
                (snd (createInstance demo_env demo_api demo_scope (filtered_machine ''node'')
                        ''token'' (demo_world [])))) = [CallRunInstances req] \<and>
          map ni_SubnetId (rii_NetworkInterfaces req) = [Some ''''] \<and>
          rii_SubnetId req = None"
    by simp
  from thc role k sc g
  have cp: "\<exists>req. filter isRunInstances
             (issued (demo_world [])
                (snd (createInstance demo_env demo_api demo_scope (filtered_machine ''controlplane'')
                        ''token'' (demo_world [])))) = [CallRunInstances req] \<and>
          rii_NetworkInterfaces req = [] \<and> rii_SubnetId req = Some ''''"
    by simp
  from tho role k
  have other: "\<exists>req. filter isRunInstances
             (issued (demo_world [])
                (snd (createInstance demo_env demo_api demo_scope (filtered_machine ''bastion'')
                        ''token'' (demo_world [])))) = [CallRunInstances req] \<and>
          rii_NetworkInterfaces req = [] \<and> rii_SubnetId req = Some ''''"
    by simp
  from sub [of "''node''"] z [of "''node''"] ds0 p [of "''node''"] i [of "''node''"] one k
    role [of "''node''"] role [of "''controlplane''"] role [of "''bastion''"] node cp other
  show ?thesis by simp
qed





lemma InstanceByTags_status [simp]:
  "InstanceByTags env api s (machine\<lparr>ms_MachineStatus_InstanceID := x\<rparr>) w =
   InstanceByTags env api s machine w"
  by (simp add: InstanceByTags_def)













end
